theory Spec2Isabelle
  imports Main "HOL-Library.Sublist"
begin

section \<open>Python text primitives used by both tools\<close>

text \<open>
  Python's \<open>str\<close> is modelled as \<open>string\<close>; a \<open>char\<close> stands for a code point below 256.
  \<open>isspace\<close> is \<open>str.isspace\<close> on that range: TAB, LF, VT, FF, CR, the separators
  0x1C..0x1F, SPACE, NEL (0x85) and NBSP (0xA0). These are the characters \<open>str.strip()\<close>
  removes from both ends.
\<close>

definition isspace :: "char \<Rightarrow> bool" where
  "isspace ch = (let n = (of_char ch :: nat)
                 in (9 \<le> n \<and> n \<le> 13) \<or> (28 \<le> n \<and> n \<le> 32) \<or> n = 133 \<or> n = 160)"

definition lstrip :: "string \<Rightarrow> string" where
  "lstrip s = dropWhile isspace s"

definition rstrip :: "string \<Rightarrow> string" where
  "rstrip s = rev (dropWhile isspace (rev s))"

definition strip :: "string \<Rightarrow> string" where
  "strip s = rstrip (lstrip s)"

text \<open>\<open>s.split("\n")\<close>: the pieces between line feeds; never the empty list.\<close>

fun split_nl :: "string \<Rightarrow> string list" where
  "split_nl [] = [[]]"
| "split_nl (ch # cs) =
     (if ch = CHR 0x0A then [] # split_nl cs
      else (case split_nl cs of
              piece # pieces \<Rightarrow> (ch # piece) # pieces
            | [] \<Rightarrow> [[ch]]))"

text \<open>\<open>sub in s\<close> on strings: \<open>sub\<close> occurs in \<open>s\<close> as a contiguous run.\<close>

fun str_contains :: "string \<Rightarrow> string \<Rightarrow> bool" where
  "str_contains sub [] = (sub = [])"
| "str_contains sub (ch # cs) = (prefix sub (ch # cs) \<or> str_contains sub cs)"

section \<open>Values handed to \<open>json.dumps\<close>\<close>

text \<open>
  The reports are built from dicts, lists, strings and integers. A dict keeps its
  insertion order, so it is an association list.
\<close>

datatype json = JStr string | JInt int | JList "json list" | JDict "(string \<times> json) list"

text \<open>\<open>d[k] = v\<close> on a dict: replace in place, or append a new key at the end.\<close>

fun dict_set :: "string \<Rightarrow> json \<Rightarrow> (string \<times> json) list \<Rightarrow> (string \<times> json) list" where
  "dict_set k v [] = [(k, v)]"
| "dict_set k v ((k', v') # kvs) =
     (if k' = k then (k, v) # kvs else (k', v') # dict_set k v kvs)"

section \<open>The process and its environment\<close>

text \<open>
  What \<open>subprocess.run(cmd, shell=True, stdout=PIPE, stderr=PIPE, universal_newlines=True)\<close>
  hands back for a command line: the exit status and the two captured streams as text.
  The environment of one run is whether \<open>.git\<close> exists in the working directory and the
  answer of the shell to each command line. The repository does not change during a run,
  so the answer is a function of the command line.
\<close>

record completed =
  returncode :: int
  stdout_text :: string
  stderr_text :: string

record env =
  dotgit_exists :: bool
  shell :: "string \<Rightarrow> completed"

text \<open>
  The two exceptions that occur: \<open>sys.exit(n)\<close> raises \<open>SystemExit\<close>; \<open>check=True\<close> makes
  \<open>subprocess.run\<close> raise \<open>CalledProcessError\<close> (carrying the captured stderr) when the
  exit status is not zero.
\<close>

datatype exn = SystemExit int | CalledProcessError string

text \<open>
  The tool's own two output streams: the documents printed to standard output and the
  lines printed to standard error, one entry per \<open>print\<close> call, oldest first.
\<close>

record console =
  out :: "json list"
  err :: "string list"

definition console0 :: console where
  "console0 = \<lparr>out = [], err = []\<rparr>"

type_synonym 'a io = "console \<Rightarrow> (exn + 'a) \<times> console"

definition print_err :: "string \<Rightarrow> console \<Rightarrow> console" where
  "print_err line c = c\<lparr>err := err c @ [line]\<rparr>"

definition print_out :: "json \<Rightarrow> console \<Rightarrow> console" where
  "print_out doc c = c\<lparr>out := out c @ [doc]\<rparr>"

definition bind :: "'a io \<Rightarrow> ('a \<Rightarrow> 'b io) \<Rightarrow> 'b io" where
  "bind m f c = (case m c of (Inl x, c') \<Rightarrow> (Inl x, c') | (Inr v, c') \<Rightarrow> f v c')"

definition subprocess_run :: "env \<Rightarrow> string \<Rightarrow> exn + completed" where
  "subprocess_run e cmd =
     (let r = shell e cmd
      in if returncode r \<noteq> 0 then Inl (CalledProcessError (stderr_text r)) else Inr r)"

text \<open>\<open>run_command\<close> is the same text in \<open>commits.py\<close> and \<open>patchsets.py\<close>.\<close>

definition run_command :: "env \<Rightarrow> string \<Rightarrow> string io" where
  "run_command e cmd c =
     (case subprocess_run e cmd of
        Inr result \<Rightarrow> (Inr (strip (stdout_text result)), c)
      | Inl (CalledProcessError es) \<Rightarrow>
          (Inl (SystemExit 1),
           print_err (''Error details: '' @ es) (print_err (''Error executing command: '' @ cmd) c))
      | Inl x \<Rightarrow> (Inl x, c))"

text \<open>
  The exit status of the process once \<open>main()\<close> is over: 0 after a normal return, the
  argument of an uncaught \<open>sys.exit\<close>, 1 after any other uncaught exception.
\<close>

fun exit_status :: "exn + unit \<Rightarrow> int" where
  "exit_status (Inr _) = 0"
| "exit_status (Inl (SystemExit n)) = n"
| "exit_status (Inl (CalledProcessError _)) = 1"

section \<open>\<open>commits.py\<close>\<close>

definition target_file :: string where
  "target_file = ''kernel/bpf/verifier.c''"

definition get_commits_between_refs :: "env \<Rightarrow> string \<Rightarrow> string \<Rightarrow> string \<Rightarrow> string list io" where
  "get_commits_between_refs e start_ref end_ref file_path =
     bind (run_command e (''git log '' @ start_ref @ ''^..'' @ end_ref
                          @ '' --no-merges --pretty=format:'%H' -- '' @ file_path))
       (\<lambda>commits c. (Inr (if commits \<noteq> [] then split_nl commits else []), c))"

definition get_commit_details :: "env \<Rightarrow> string \<Rightarrow> json io" where
  "get_commit_details e commit_hash =
     bind (run_command e (''git show -s --format=%B '' @ commit_hash)) (\<lambda>message.
     bind (run_command e (''git show --name-only --format='' @ [CHR 0x27, CHR 0x27] @ '' ''
                          @ commit_hash)) (\<lambda>files.
     bind (run_command e (''git show -s --format='%an <%ae>' '' @ commit_hash)) (\<lambda>author.
     bind (run_command e (''git show -s --format='%ci' '' @ commit_hash)) (\<lambda>date c.
       (Inr (JDict [(''hash'', JStr commit_hash),
                    (''author'', JStr author),
                    (''date'', JStr date),
                    (''message'', JStr message),
                    (''modified_files'',
                       JList (map JStr (filter (\<lambda>f. f \<noteq> []) (split_nl files))))]),
        c)))))"

text \<open>The loop of \<open>main\<close> over the listed hashes; \<open>acc\<close> is \<open>results["commits"]\<close>.\<close>

fun commits_loop :: "env \<Rightarrow> string list \<Rightarrow> json list \<Rightarrow> json list io" where
  "commits_loop e [] acc c = (Inr acc, c)"
| "commits_loop e (commit_hash # rest) acc c =
     (if commit_hash \<noteq> [] then
        (case get_commit_details e commit_hash c of
           (Inl x, c') \<Rightarrow> (Inl x, c')
         | (Inr commit_details, c') \<Rightarrow> commits_loop e rest (acc @ [commit_details]) c')
      else commits_loop e rest acc c)"

text \<open>The \<open>try\<close> body that checks both references, shared by the two \<open>main\<close> functions.\<close>

definition verify_refs :: "env \<Rightarrow> string \<Rightarrow> string \<Rightarrow> string io" where
  "verify_refs e start_ref end_ref =
     bind (run_command e (''git rev-parse '' @ start_ref))
       (\<lambda>_. run_command e (''git rev-parse '' @ end_ref))"

text \<open>
  \<open>main\<close> of \<open>commits.py\<close>, from the parsed arguments \<open>args.start_ref\<close>, \<open>args.end_ref\<close> on:
  the two strings are what \<open>parser.parse_args()\<close> returned. When \<open>argparse\<close> itself ends the
  process (a usage error, or \<open>-h\<close>), nothing below runs.
\<close>

definition main_commits :: "env \<Rightarrow> string \<Rightarrow> string \<Rightarrow> unit io" where
  "main_commits e start_ref end_ref c =
     (if \<not> dotgit_exists e then
        (Inl (SystemExit 1), print_err ''Error: Not in a git repository'' c)
      else
        (case verify_refs e start_ref end_ref c of
           (Inl (CalledProcessError _), c1) \<Rightarrow>
             (Inl (SystemExit 1),
              print_err ''Error: One or both git references do not exist'' c1)
         | (Inl x, c1) \<Rightarrow> (Inl x, c1)
         | (Inr _, c1) \<Rightarrow>
             (let c2 = print_err (''Analyzing commits between '' @ start_ref @ '' and ''
                                  @ end_ref @ '' (inclusive) that modified '' @ target_file) c1;
                  metadata = [(''target_file'', JStr target_file),
                              (''start_ref'', JStr start_ref),
                              (''end_ref'', JStr end_ref)]
              in (case get_commits_between_refs e start_ref end_ref target_file c2 of
                    (Inl x, c3) \<Rightarrow> (Inl x, c3)
                  | (Inr commits, c3) \<Rightarrow>
                      (case commits_loop e commits [] c3 of
                         (Inl x, c4) \<Rightarrow> (Inl x, c4)
                       | (Inr res_commits, c4) \<Rightarrow>
                           (Inr (),
                            print_out
                              (JDict [(''metadata'',
                                         JDict (dict_set ''commit_count''
                                                  (JInt (int (length res_commits))) metadata)),
                                      (''commits'', JList res_commits)])
                              c4))))))"

section \<open>\<open>patchsets.py\<close>\<close>

definition get_merge_commits :: "env \<Rightarrow> string \<Rightarrow> string \<Rightarrow> string list io" where
  "get_merge_commits e start_ref end_ref =
     bind (run_command e (''git log --merges '' @ start_ref @ ''^..'' @ end_ref
                          @ '' --format='%H'' @ [CHR 0x27]))
       (\<lambda>merges c. (Inr (if merges \<noteq> [] then split_nl merges else []), c))"

text \<open>The dict returned by \<open>get_merge_details\<close>; its keys are fixed, so it is a record.\<close>

record merge_details =
  md_hash :: string
  md_subject :: string
  md_body :: string
  md_author :: string
  md_date :: string
  md_parent1 :: string
  md_parent2 :: string

definition get_merge_details :: "env \<Rightarrow> string \<Rightarrow> merge_details io" where
  "get_merge_details e merge_hash =
     bind (run_command e (''git show -s --format='%s' '' @ merge_hash)) (\<lambda>subject.
     bind (run_command e (''git show -s --format='%b' '' @ merge_hash)) (\<lambda>body.
     bind (run_command e (''git rev-parse '' @ merge_hash @ ''^1'')) (\<lambda>parent1.
     bind (run_command e (''git rev-parse '' @ merge_hash @ ''^2'')) (\<lambda>parent2.
     bind (run_command e (''git show -s --format='%an <%ae>' '' @ merge_hash)) (\<lambda>author.
     bind (run_command e (''git show -s --format='%ci' '' @ merge_hash)) (\<lambda>date c.
       (Inr \<lparr>md_hash = merge_hash, md_subject = subject, md_body = body,
             md_author = author, md_date = date,
             md_parent1 = parent1, md_parent2 = parent2\<rparr>,
        c)))))))"

definition get_commits_in_merge :: "env \<Rightarrow> string \<Rightarrow> string \<Rightarrow> string list io" where
  "get_commits_in_merge e parent1 parent2 =
     bind (run_command e (''git log --reverse --no-merges --format='%H' '' @ parent1
                          @ ''..'' @ parent2))
       (\<lambda>commits c. (Inr (if commits \<noteq> [] then split_nl commits else []), c))"

definition get_commit_details_ps :: "env \<Rightarrow> string \<Rightarrow> json io" where
  "get_commit_details_ps e commit_hash =
     bind (run_command e (''git show -s --format='%s' '' @ commit_hash)) (\<lambda>subject.
     bind (run_command e (''git show -s --format='%b' '' @ commit_hash)) (\<lambda>message.
     bind (run_command e (''git show --name-only --format='' @ [CHR 0x27, CHR 0x27] @ '' ''
                          @ commit_hash)) (\<lambda>files.
     bind (run_command e (''git show -s --format='%an <%ae>' '' @ commit_hash)) (\<lambda>author.
     bind (run_command e (''git show -s --format='%ci' '' @ commit_hash)) (\<lambda>date c.
       (Inr (JDict [(''hash'', JStr commit_hash),
                    (''subject'', JStr subject),
                    (''message'', JStr message),
                    (''author'', JStr author),
                    (''date'', JStr date),
                    (''modified_files'',
                       JList (map JStr (filter (\<lambda>f. f \<noteq> []) (split_nl files))))]),
        c))))))"

definition check_merge_affects_verifier :: "env \<Rightarrow> string \<Rightarrow> string \<Rightarrow> string \<Rightarrow> bool io" where
  "check_merge_affects_verifier e parent1 parent2 file_path =
     bind (run_command e (''git log --oneline '' @ parent1 @ ''..'' @ parent2
                          @ '' -- '' @ file_path))
       (\<lambda>result c. (Inr (result \<noteq> []), c))"

definition check_merge_contains_merges :: "env \<Rightarrow> string \<Rightarrow> string \<Rightarrow> bool io" where
  "check_merge_contains_merges e parent1 parent2 =
     bind (run_command e (''git log --merges --oneline '' @ parent1 @ ''..'' @ parent2))
       (\<lambda>result c. (Inr (result \<noteq> []), c))"

text \<open>The inner loop of \<open>main\<close> over the hashes of one merge; \<open>acc\<close> is \<open>commits\<close>.\<close>

fun patchset_commits_loop :: "env \<Rightarrow> string list \<Rightarrow> json list \<Rightarrow> json list io" where
  "patchset_commits_loop e [] acc c = (Inr acc, c)"
| "patchset_commits_loop e (commit_hash # rest) acc c =
     (if commit_hash \<noteq> [] then
        (case get_commit_details_ps e commit_hash c of
           (Inl x, c') \<Rightarrow> (Inl x, c')
         | (Inr commit_details, c') \<Rightarrow>
             patchset_commits_loop e rest (acc @ [commit_details]) c')
      else patchset_commits_loop e rest acc c)"

text \<open>
  One pass of the outer loop body for a non-empty \<open>merge_hash\<close>: \<open>None\<close> is \<open>continue\<close>
  (or the relevance test failing), \<open>Some patchset\<close> is the entry appended to
  \<open>results["patchsets"]\<close>.
\<close>

definition process_merge :: "env \<Rightarrow> string \<Rightarrow> json option io" where
  "process_merge e merge_hash =
     bind (get_merge_details e merge_hash) (\<lambda>md.
     bind (check_merge_contains_merges e (md_parent1 md) (md_parent2 md)) (\<lambda>nested.
       if nested then (\<lambda>c. (Inr None, c))
       else if str_contains ''Merge tag'' (md_subject md) then (\<lambda>c. (Inr None, c))
       else
         bind (check_merge_affects_verifier e (md_parent1 md) (md_parent2 md) target_file)
           (\<lambda>affects.
              if affects then
                (\<lambda>c.
                   bind (get_commits_in_merge e (md_parent1 md) (md_parent2 md))
                     (\<lambda>commit_hashes.
                        bind (patchset_commits_loop e commit_hashes []) (\<lambda>commits c'.
                          (Inr (Some (JDict [(''merge_hash'', JStr merge_hash),
                                             (''merge_subject'', JStr (md_subject md)),
                                             (''merge_body'', JStr (md_body md)),
                                             (''merge_author'', JStr (md_author md)),
                                             (''merge_date'', JStr (md_date md)),
                                             (''commits'', JList commits)])),
                           c')))
                     (print_err (''Found ('' @ merge_hash @ '')  '' @ md_subject md) c))
              else (\<lambda>c. (Inr None, c)))))"

fun merges_loop :: "env \<Rightarrow> string list \<Rightarrow> json list \<Rightarrow> json list io" where
  "merges_loop e [] acc c = (Inr acc, c)"
| "merges_loop e (merge_hash # rest) acc c =
     (if merge_hash = [] then merges_loop e rest acc c
      else
        (case process_merge e merge_hash c of
           (Inl x, c') \<Rightarrow> (Inl x, c')
         | (Inr None, c') \<Rightarrow> merges_loop e rest acc c'
         | (Inr (Some patchset), c') \<Rightarrow> merges_loop e rest (acc @ [patchset]) c'))"

text \<open>
  \<open>main\<close> of \<open>patchsets.py\<close>, from the parsed arguments on.
\<close>

definition main_patchsets :: "env \<Rightarrow> string \<Rightarrow> string \<Rightarrow> unit io" where
  "main_patchsets e start_ref end_ref c =
     (if \<not> dotgit_exists e then
        (Inl (SystemExit 1), print_err ''Error: Not in a git repository'' c)
      else
        (case verify_refs e start_ref end_ref c of
           (Inl (CalledProcessError _), c1) \<Rightarrow>
             (Inl (SystemExit 1),
              print_err ''Error: One or both git references do not exist'' c1)
         | (Inl x, c1) \<Rightarrow> (Inl x, c1)
         | (Inr _, c1) \<Rightarrow>
             (let c2 = print_err (''Analyzing merge commits between '' @ start_ref @ '' and ''
                                  @ end_ref @ '' that affect '' @ target_file) c1;
                  metadata = [(''target_file'', JStr target_file),
                              (''start_ref'', JStr start_ref),
                              (''end_ref'', JStr end_ref)]
              in (case get_merge_commits e start_ref end_ref c2 of
                    (Inl x, c3) \<Rightarrow> (Inl x, c3)
                  | (Inr merge_commits, c3) \<Rightarrow>
                      (case merges_loop e merge_commits [] c3 of
                         (Inl x, c4) \<Rightarrow> (Inl x, c4)
                       | (Inr res_patchsets, c4) \<Rightarrow>
                           (Inr (),
                            print_out
                              (JDict [(''metadata'',
                                         JDict (dict_set ''patchset_count''
                                                  (JInt (int (length res_patchsets))) metadata)),
                                      (''patchsets'', JList res_patchsets)])
                              c4))))))"

section \<open>Reading the environment and the reports\<close>

text \<open>
  Whether the shell reports success for a command line, and the text \<open>run_command\<close>
  returns for it in that case.
\<close>

definition succeeds :: "env \<Rightarrow> string \<Rightarrow> bool" where
  "succeeds e cmd = (returncode (shell e cmd) = 0)"

definition out_text :: "env \<Rightarrow> string \<Rightarrow> string" where
  "out_text e cmd = strip (stdout_text (shell e cmd))"

text \<open>The two lines \<open>run_command\<close> prints before it exits on a failed command.\<close>

definition failure_lines :: "env \<Rightarrow> string \<Rightarrow> string list" where
  "failure_lines e cmd =
     [''Error executing command: '' @ cmd, ''Error details: '' @ stderr_text (shell e cmd)]"


text \<open>\<open>d[k]\<close> on a JSON object and the elements of a JSON array.\<close>

fun json_field :: "string \<Rightarrow> json \<Rightarrow> json option" where
  "json_field k (JDict kvs) = map_of kvs k"
| "json_field k _ = None"

fun json_items :: "json \<Rightarrow> json list" where
  "json_items (JList xs) = xs"
| "json_items _ = []"

fun json_array :: "string \<Rightarrow> json \<Rightarrow> json list" where
  "json_array k doc = (case json_field k doc of Some v \<Rightarrow> json_items v | None \<Rightarrow> [])"


definition reported_patchsets :: "console \<Rightarrow> json list" where
  "reported_patchsets c = concat (map (json_array ''patchsets'') (out c))"

text \<open>The lines of a listing that the loops keep: the non-empty ones, in order.\<close>

definition listed :: "string \<Rightarrow> string list" where
  "listed text = filter (\<lambda>l. l \<noteq> []) (split_nl text)"

text \<open>The command lines the tools send to the shell, as their f-strings build them.\<close>

definition rev_parse_cmd :: "string \<Rightarrow> string" where
  "rev_parse_cmd ref = ''git rev-parse '' @ ref"

definition range_cmd :: "string \<Rightarrow> string \<Rightarrow> string" where
  "range_cmd start_ref end_ref =
     ''git log '' @ start_ref @ ''^..'' @ end_ref
       @ '' --no-merges --pretty=format:'%H' -- kernel/bpf/verifier.c''"

definition message_cmd :: "string \<Rightarrow> string" where
  "message_cmd h = ''git show -s --format=%B '' @ h"

definition names_cmd :: "string \<Rightarrow> string" where
  "names_cmd h = ''git show --name-only --format='' @ [CHR 0x27, CHR 0x27] @ '' '' @ h"

definition author_cmd :: "string \<Rightarrow> string" where
  "author_cmd h = ''git show -s --format='%an <%ae>' '' @ h"

definition date_cmd :: "string \<Rightarrow> string" where
  "date_cmd h = ''git show -s --format='%ci' '' @ h"

definition subject_cmd :: "string \<Rightarrow> string" where
  "subject_cmd h = ''git show -s --format='%s' '' @ h"

definition body_cmd :: "string \<Rightarrow> string" where
  "body_cmd h = ''git show -s --format='%b' '' @ h"

definition merges_cmd :: "string \<Rightarrow> string \<Rightarrow> string" where
  "merges_cmd start_ref end_ref =
     ''git log --merges '' @ start_ref @ ''^..'' @ end_ref @ '' --format='%H'' @ [CHR 0x27]"

definition nested_cmd :: "string \<Rightarrow> string \<Rightarrow> string" where
  "nested_cmd parent1 parent2 = ''git log --merges --oneline '' @ parent1 @ ''..'' @ parent2"

definition affects_cmd :: "string \<Rightarrow> string \<Rightarrow> string" where
  "affects_cmd parent1 parent2 =
     ''git log --oneline '' @ parent1 @ ''..'' @ parent2 @ '' -- kernel/bpf/verifier.c''"

definition payload_cmd :: "string \<Rightarrow> string \<Rightarrow> string" where
  "payload_cmd parent1 parent2 =
     ''git log --reverse --no-merges --format='%H' '' @ parent1 @ ''..'' @ parent2"

text \<open>The record \<open>get_commit_details\<close> of \<open>commits.py\<close> builds when its four queries succeed.\<close>

definition commit_record :: "env \<Rightarrow> string \<Rightarrow> json" where
  "commit_record e h =
     JDict [(''hash'', JStr h),
            (''author'', JStr (out_text e (author_cmd h))),
            (''date'', JStr (out_text e (date_cmd h))),
            (''message'', JStr (out_text e (message_cmd h))),
            (''modified_files'', JList (map JStr (listed (out_text e (names_cmd h)))))]"

definition details_ok :: "env \<Rightarrow> string \<Rightarrow> bool" where
  "details_ok e h =
     (succeeds e (message_cmd h) \<and> succeeds e (names_cmd h) \<and>
      succeeds e (author_cmd h) \<and> succeeds e (date_cmd h))"

text \<open>The report \<open>commits.py\<close> prints for a list of commit records.\<close>

definition commits_report :: "string \<Rightarrow> string \<Rightarrow> json list \<Rightarrow> json" where
  "commits_report start_ref end_ref records =
     JDict [(''metadata'',
               JDict [(''target_file'', JStr ''kernel/bpf/verifier.c''),
                      (''start_ref'', JStr start_ref),
                      (''end_ref'', JStr end_ref),
                      (''commit_count'', JInt (int (length records)))]),
            (''commits'', JList records)]"

text \<open>The progress line of \<open>commits.py\<close>.\<close>

definition commits_progress :: "string \<Rightarrow> string \<Rightarrow> string" where
  "commits_progress start_ref end_ref =
     ''Analyzing commits between '' @ start_ref @ '' and '' @ end_ref
       @ '' (inclusive) that modified kernel/bpf/verifier.c''"

text \<open>What \<open>patchsets.py\<close> reads about a merge, and its three tests, from the environment.\<close>

definition parent1_of :: "env \<Rightarrow> string \<Rightarrow> string" where
  "parent1_of e m = out_text e (rev_parse_cmd (m @ ''^1''))"

definition parent2_of :: "env \<Rightarrow> string \<Rightarrow> string" where
  "parent2_of e m = out_text e (rev_parse_cmd (m @ ''^2''))"

definition merge_record :: "env \<Rightarrow> string \<Rightarrow> merge_details" where
  "merge_record e m =
     \<lparr>md_hash = m,
      md_subject = out_text e (subject_cmd m),
      md_body = out_text e (body_cmd m),
      md_author = out_text e (author_cmd m),
      md_date = out_text e (date_cmd m),
      md_parent1 = parent1_of e m,
      md_parent2 = parent2_of e m\<rparr>"

definition contains_merges :: "env \<Rightarrow> string \<Rightarrow> bool" where
  "contains_merges e m = (out_text e (nested_cmd (parent1_of e m) (parent2_of e m)) \<noteq> [])"

definition tag_merge :: "env \<Rightarrow> string \<Rightarrow> bool" where
  "tag_merge e m = str_contains ''Merge tag'' (out_text e (subject_cmd m))"

definition affects_verifier :: "env \<Rightarrow> string \<Rightarrow> bool" where
  "affects_verifier e m = (out_text e (affects_cmd (parent1_of e m) (parent2_of e m)) \<noteq> [])"

definition accepted :: "env \<Rightarrow> string \<Rightarrow> bool" where
  "accepted e m = (\<not> contains_merges e m \<and> \<not> tag_merge e m \<and> affects_verifier e m)"

text \<open>The record \<open>get_commit_details\<close> of \<open>patchsets.py\<close> builds when its five queries succeed.\<close>

definition commit_record_ps :: "env \<Rightarrow> string \<Rightarrow> json" where
  "commit_record_ps e h =
     JDict [(''hash'', JStr h),
            (''subject'', JStr (out_text e (subject_cmd h))),
            (''message'', JStr (out_text e (body_cmd h))),
            (''author'', JStr (out_text e (author_cmd h))),
            (''date'', JStr (out_text e (date_cmd h))),
            (''modified_files'', JList (map JStr (listed (out_text e (names_cmd h)))))]"

text \<open>The patchset entry built for a merge that passes the three tests.\<close>

definition patchset_record :: "env \<Rightarrow> string \<Rightarrow> json" where
  "patchset_record e m =
     JDict [(''merge_hash'', JStr m),
            (''merge_subject'', JStr (out_text e (subject_cmd m))),
            (''merge_body'', JStr (out_text e (body_cmd m))),
            (''merge_author'', JStr (out_text e (author_cmd m))),
            (''merge_date'', JStr (out_text e (date_cmd m))),
            (''commits'',
               JList (map (commit_record_ps e)
                  (listed (out_text e (payload_cmd (parent1_of e m) (parent2_of e m))))))]"

text \<open>The report \<open>patchsets.py\<close> prints for a list of patchsets, and its progress line.\<close>

definition patchsets_report :: "string \<Rightarrow> string \<Rightarrow> json list \<Rightarrow> json" where
  "patchsets_report start_ref end_ref records =
     JDict [(''metadata'',
               JDict [(''target_file'', JStr ''kernel/bpf/verifier.c''),
                      (''start_ref'', JStr start_ref),
                      (''end_ref'', JStr end_ref),
                      (''patchset_count'', JInt (int (length records)))]),
            (''patchsets'', JList records)]"

definition patchsets_progress :: "string \<Rightarrow> string \<Rightarrow> string" where
  "patchsets_progress start_ref end_ref =
     ''Analyzing merge commits between '' @ start_ref @ '' and '' @ end_ref
       @ '' that affect kernel/bpf/verifier.c''"

text \<open>The line printed by the \<open>except subprocess.CalledProcessError\<close> handler of \<open>main\<close>.\<close>

definition handler_line :: string where
  "handler_line = ''Error: One or both git references do not exist''"

text \<open>
  An action that leaves standard output alone, only appends lines other than
  \<open>handler_line\<close> to standard error, and can fail only by \<open>sys.exit(1)\<close> after printing at
  least one line to standard error.
\<close>

definition quiet :: "'a io \<Rightarrow> bool" where
  "quiet m =
     (\<forall>c. case m c of
            (Inr v, c') \<Rightarrow>
              (\<exists>ls. c' = c\<lparr>err := err c @ ls\<rparr> \<and> handler_line \<notin> set ls)
          | (Inl x, c') \<Rightarrow>
              x = SystemExit 1 \<and>
              (\<exists>ls. c' = c\<lparr>err := err c @ ls\<rparr> \<and> ls \<noteq> [] \<and> handler_line \<notin> set ls))"

text \<open>The field \<open>k\<close> of a report's \<open>metadata\<close> object.\<close>

definition metadata_field :: "string \<Rightarrow> json \<Rightarrow> json option" where
  "metadata_field k doc =
     (case json_field ''metadata'' doc of Some md \<Rightarrow> json_field k md | None \<Rightarrow> None)"


section \<open>A concrete repository\<close>

text \<open>
  A small history, used to run the two tools on concrete input. Mainline: \<open>c0\<close> (root),
  \<open>c1\<close>, \<open>c2\<close>, then four merges \<open>m1\<close> .. \<open>m4\<close>, each with the previous mainline commit
  as first parent.
  \<^item> \<open>m1\<close> merges the branch \<open>a1\<close>, \<open>a2\<close> (forked at \<open>c2\<close>); \<open>a1\<close> touches the
    verifier and a file whose name ends in a space.
  \<^item> \<open>m2\<close> merges \<open>b1\<close>, which touches only \<open>net/core/filter.c\<close>.
  \<^item> \<open>m3\<close> is a tag merge of \<open>t1\<close>, which touches the verifier.
  \<^item> \<open>m4\<close> merges \<open>mc\<close>, itself a merge of \<open>d1\<close> into \<open>x1\<close> (both forked at \<open>m3\<close>,
    both touching the verifier).
  The tags \<open>v0.9\<close>, \<open>v1.0\<close>, \<open>v1.1\<close>, \<open>v2.0\<close> name \<open>c0\<close>, \<open>c1\<close>, \<open>c2\<close>, \<open>m4\<close>.
  The tables hold what git prints on this history for the command lines the tools
  issue, for the relevance query of every merge and for the details of \<open>c0\<close>; every
  other command line fails.
\<close>

definition hash_c0 :: string where
  "hash_c0 = ''1197955e4244c18bdb9b375076bcb6ca05414672''"

definition hash_c1 :: string where
  "hash_c1 = ''2f22765d04931a078909145ca628d2264c852d7d''"

definition hash_c2 :: string where
  "hash_c2 = ''6b1f53303a732ccc8c6aae6640399827c15250e3''"

definition hash_a1 :: string where
  "hash_a1 = ''f29bc91bbdab169fc0c0a326965953d11c7dff83''"


definition hash_m1 :: string where
  "hash_m1 = ''ae23b94ccaf714337e4ce5ba99ef3dc257e300df''"

definition hash_b1 :: string where
  "hash_b1 = ''7e83ca2a65d6f90a809c8570c6c905a941b87732''"

definition hash_m2 :: string where
  "hash_m2 = ''32d332da761f44df7959e5887b6b94cb4667d781''"

definition hash_t1 :: string where
  "hash_t1 = ''e5353879bd69bfddcb465dad176ff52db8319d6f''"

definition hash_m3 :: string where
  "hash_m3 = ''862a51f8b6294a4b0729a7c5c929bfd67068d962''"

definition hash_x1 :: string where
  "hash_x1 = ''16d4afa270ff905221b8edc8c851e6275a3f7da4''"

definition hash_d1 :: string where
  "hash_d1 = ''ee17560c8b77385b5bb8d8687820f9b82f3fdcdf''"

definition hash_mc :: string where
  "hash_mc = ''dcab2065d59495532bbce07c9af6c778f6afe178''"

definition hash_m4 :: string where
  "hash_m4 = ''0e5bc0a684c7afe47fa66cdf21a4dfa33742f9c3''"

definition answer :: "string option \<Rightarrow> completed" where
  "answer r =
     (case r of
        Some text \<Rightarrow> \<lparr>returncode = 0, stdout_text = text, stderr_text = []\<rparr>
      | None \<Rightarrow> \<lparr>returncode = 128, stdout_text = [],
                  stderr_text = ''fatal: bad revision\<newline>''\<rparr>)"

definition toy_revs :: "(string \<times> string) list" where
  "toy_revs = [
    (''v1.0'',
       ''2f22765d04931a078909145ca628d2264c852d7d\<newline>''),
    (''v2.0'',
       ''0e5bc0a684c7afe47fa66cdf21a4dfa33742f9c3\<newline>''),
    (''v1.1'',
       ''6b1f53303a732ccc8c6aae6640399827c15250e3\<newline>''),
    (''v0.9'',
       ''1197955e4244c18bdb9b375076bcb6ca05414672\<newline>''),
    (''0e5bc0a684c7afe47fa66cdf21a4dfa33742f9c3^1'',
       ''862a51f8b6294a4b0729a7c5c929bfd67068d962\<newline>''),
    (''0e5bc0a684c7afe47fa66cdf21a4dfa33742f9c3^2'',
       ''dcab2065d59495532bbce07c9af6c778f6afe178\<newline>''),
    (''dcab2065d59495532bbce07c9af6c778f6afe178^1'',
       ''16d4afa270ff905221b8edc8c851e6275a3f7da4\<newline>''),
    (''dcab2065d59495532bbce07c9af6c778f6afe178^2'',
       ''ee17560c8b77385b5bb8d8687820f9b82f3fdcdf\<newline>''),
    (''862a51f8b6294a4b0729a7c5c929bfd67068d962^1'',
       ''32d332da761f44df7959e5887b6b94cb4667d781\<newline>''),
    (''862a51f8b6294a4b0729a7c5c929bfd67068d962^2'',
       ''e5353879bd69bfddcb465dad176ff52db8319d6f\<newline>''),
    (''32d332da761f44df7959e5887b6b94cb4667d781^1'',
       ''ae23b94ccaf714337e4ce5ba99ef3dc257e300df\<newline>''),
    (''32d332da761f44df7959e5887b6b94cb4667d781^2'',
       ''7e83ca2a65d6f90a809c8570c6c905a941b87732\<newline>''),
    (''ae23b94ccaf714337e4ce5ba99ef3dc257e300df^1'',
       ''6b1f53303a732ccc8c6aae6640399827c15250e3\<newline>''),
    (''ae23b94ccaf714337e4ce5ba99ef3dc257e300df^2'',
       ''b9f85daa6f83cf02ce5c31913d1f64d3f5c8fade\<newline>'')]"

definition toy_messages :: "(string \<times> string) list" where
  "toy_messages = [
    (''ee17560c8b77385b5bb8d8687820f9b82f3fdcdf'',
       ''bpf: btf id checks\<newline>\<newline>''),
    (''16d4afa270ff905221b8edc8c851e6275a3f7da4'',
       ''bpf: split check_func_arg\<newline>\<newline>''),
    (''e5353879bd69bfddcb465dad176ff52db8319d6f'',
       ''bpf: verifier selftest hook\<newline>\<newline>''),
    (''f29bc91bbdab169fc0c0a326965953d11c7dff83'',
       ''bpf: track scalar ids\<newline>\<newline>Needed for range propagation.\<newline>\<newline>''),
    (''6b1f53303a732ccc8c6aae6640399827c15250e3'',
       ''bpf: fix typo in verifier log\<newline>\<newline>''),
    (''2f22765d04931a078909145ca628d2264c852d7d'',
       ''bpf: tighten bounds check\<newline>\<newline>Reject negative offsets early.\<newline>\<newline>''),
    (''1197955e4244c18bdb9b375076bcb6ca05414672'',
       ''bpf: import verifier\<newline>\<newline>'')]"

definition toy_subjects :: "(string \<times> string) list" where
  "toy_subjects = [
    (''0e5bc0a684c7afe47fa66cdf21a4dfa33742f9c3'',
       ''Merge branch 'verifier-work'\<newline>''),
    (''dcab2065d59495532bbce07c9af6c778f6afe178'',
       ''Merge branch 'btf-work' into verifier-work\<newline>''),
    (''ee17560c8b77385b5bb8d8687820f9b82f3fdcdf'',
       ''bpf: btf id checks\<newline>''),
    (''862a51f8b6294a4b0729a7c5c929bfd67068d962'',
       ''Merge tag 'bpf-next-6.1' of git://example.org/bpf-next\<newline>''),
    (''32d332da761f44df7959e5887b6b94cb4667d781'',
       ''Merge branch 'net-fixes'\<newline>''),
    (''ae23b94ccaf714337e4ce5ba99ef3dc257e300df'',
       ''Merge branch 'verifier-fixes'\<newline>''),
    (''f29bc91bbdab169fc0c0a326965953d11c7dff83'',
       ''bpf: track scalar ids\<newline>''),
    (''b9f85daa6f83cf02ce5c31913d1f64d3f5c8fade'',
       ''bpf: export helper\<newline>'')]"

definition toy_bodies :: "(string \<times> string) list" where
  "toy_bodies = [
    (''0e5bc0a684c7afe47fa66cdf21a4dfa33742f9c3'',
       ''\<newline>''),
    (''dcab2065d59495532bbce07c9af6c778f6afe178'',
       ''\<newline>''),
    (''ee17560c8b77385b5bb8d8687820f9b82f3fdcdf'',
       ''\<newline>''),
    (''862a51f8b6294a4b0729a7c5c929bfd67068d962'',
       ''Tagged snapshot.\<newline>\<newline>''),
    (''32d332da761f44df7959e5887b6b94cb4667d781'',
       ''\<newline>''),
    (''ae23b94ccaf714337e4ce5ba99ef3dc257e300df'',
       ''\<newline>''),
    (''f29bc91bbdab169fc0c0a326965953d11c7dff83'',
       ''Needed for range propagation.\<newline>\<newline>''),
    (''b9f85daa6f83cf02ce5c31913d1f64d3f5c8fade'',
       ''\<newline>'')]"

definition toy_authors :: "(string \<times> string) list" where
  "toy_authors = [
    (''ee17560c8b77385b5bb8d8687820f9b82f3fdcdf'',
       ''Andrii Nakryiko <andrii@kernel.org>\<newline>''),
    (''16d4afa270ff905221b8edc8c851e6275a3f7da4'',
       ''Daniel Borkmann <daniel@iogearbox.net>\<newline>''),
    (''e5353879bd69bfddcb465dad176ff52db8319d6f'',
       ''Andrii Nakryiko <andrii@kernel.org>\<newline>''),
    (''f29bc91bbdab169fc0c0a326965953d11c7dff83'',
       ''Andrii Nakryiko <andrii@kernel.org>\<newline>''),
    (''6b1f53303a732ccc8c6aae6640399827c15250e3'',
       ''Daniel Borkmann <daniel@iogearbox.net>\<newline>''),
    (''2f22765d04931a078909145ca628d2264c852d7d'',
       ''Alexei Starovoitov <ast@kernel.org>\<newline>''),
    (''1197955e4244c18bdb9b375076bcb6ca05414672'',
       ''Alexei Starovoitov <ast@kernel.org>\<newline>''),
    (''0e5bc0a684c7afe47fa66cdf21a4dfa33742f9c3'',
       ''Alexei Starovoitov <ast@kernel.org>\<newline>''),
    (''dcab2065d59495532bbce07c9af6c778f6afe178'',
       ''Daniel Borkmann <daniel@iogearbox.net>\<newline>''),
    (''862a51f8b6294a4b0729a7c5c929bfd67068d962'',
       ''Alexei Starovoitov <ast@kernel.org>\<newline>''),
    (''32d332da761f44df7959e5887b6b94cb4667d781'',
       ''Alexei Starovoitov <ast@kernel.org>\<newline>''),
    (''ae23b94ccaf714337e4ce5ba99ef3dc257e300df'',
       ''Alexei Starovoitov <ast@kernel.org>\<newline>''),
    (''b9f85daa6f83cf02ce5c31913d1f64d3f5c8fade'',
       ''Andrii Nakryiko <andrii@kernel.org>\<newline>'')]"

definition toy_dates :: "(string \<times> string) list" where
  "toy_dates = [
    (''ee17560c8b77385b5bb8d8687820f9b82f3fdcdf'',
       ''2022-02-11 12:00:00 -0800\<newline>''),
    (''16d4afa270ff905221b8edc8c851e6275a3f7da4'',
       ''2022-02-10 09:30:00 +0100\<newline>''),
    (''e5353879bd69bfddcb465dad176ff52db8319d6f'',
       ''2022-02-05 12:00:00 -0800\<newline>''),
    (''f29bc91bbdab169fc0c0a326965953d11c7dff83'',
       ''2022-01-20 12:00:00 -0800\<newline>''),
    (''6b1f53303a732ccc8c6aae6640399827c15250e3'',
       ''2022-01-17 09:30:00 +0100\<newline>''),
    (''2f22765d04931a078909145ca628d2264c852d7d'',
       ''2022-01-10 10:00:00 -0800\<newline>''),
    (''1197955e4244c18bdb9b375076bcb6ca05414672'',
       ''2022-01-03 10:00:00 -0800\<newline>''),
    (''0e5bc0a684c7afe47fa66cdf21a4dfa33742f9c3'',
       ''2022-02-14 08:00:00 -0800\<newline>''),
    (''dcab2065d59495532bbce07c9af6c778f6afe178'',
       ''2022-02-12 09:30:00 +0100\<newline>''),
    (''862a51f8b6294a4b0729a7c5c929bfd67068d962'',
       ''2022-02-07 08:00:00 -0800\<newline>''),
    (''32d332da761f44df7959e5887b6b94cb4667d781'',
       ''2022-02-02 08:00:00 -0800\<newline>''),
    (''ae23b94ccaf714337e4ce5ba99ef3dc257e300df'',
       ''2022-01-24 08:00:00 -0800\<newline>''),
    (''b9f85daa6f83cf02ce5c31913d1f64d3f5c8fade'',
       ''2022-01-21 12:00:00 -0800\<newline>'')]"

definition toy_names :: "(string \<times> string) list" where
  "toy_names = [
    (''ee17560c8b77385b5bb8d8687820f9b82f3fdcdf'',
       ''kernel/bpf/btf.c\<newline>kernel/bpf/verifier.c\<newline>''),
    (''16d4afa270ff905221b8edc8c851e6275a3f7da4'',
       ''kernel/bpf/verifier.c\<newline>''),
    (''e5353879bd69bfddcb465dad176ff52db8319d6f'',
       ''kernel/bpf/verifier.c\<newline>''),
    (''f29bc91bbdab169fc0c0a326965953d11c7dff83'',
       ''README \<newline>kernel/bpf/verifier.c\<newline>''),
    (''6b1f53303a732ccc8c6aae6640399827c15250e3'',
       ''kernel/bpf/verifier.c\<newline>''),
    (''2f22765d04931a078909145ca628d2264c852d7d'',
       ''kernel/bpf/verifier.c\<newline>''),
    (''1197955e4244c18bdb9b375076bcb6ca05414672'',
       ''Makefile\<newline>kernel/bpf/verifier.c\<newline>''),
    (''b9f85daa6f83cf02ce5c31913d1f64d3f5c8fade'',
       ''kernel/bpf/core.c\<newline>'')]"

definition toy_logs :: "(string \<times> string) list" where
  "toy_logs = [
    (''v1.0^..v2.0 --no-merges --pretty=format:'%H' -- kernel/bpf/verifier.c'',
       ''ee17560c8b77385b5bb8d8687820f9b82f3fdcdf\<newline>16d4afa270ff905221b8edc8c851e6275a3f7da4\<newline>e5353879bd69bfddcb465dad176ff52db8319d6f\<newline>f29bc91bbdab169fc0c0a326965953d11c7dff83\<newline>6b1f53303a732ccc8c6aae6640399827c15250e3\<newline>2f22765d04931a078909145ca628d2264c852d7d''),
    (''v1.1^..v1.0 --no-merges --pretty=format:'%H' -- kernel/bpf/verifier.c'',
       ''''),
    (''--merges v1.0^..v2.0 --format='%H'' @ [CHR 0x27],
       ''0e5bc0a684c7afe47fa66cdf21a4dfa33742f9c3\<newline>dcab2065d59495532bbce07c9af6c778f6afe178\<newline>862a51f8b6294a4b0729a7c5c929bfd67068d962\<newline>32d332da761f44df7959e5887b6b94cb4667d781\<newline>ae23b94ccaf714337e4ce5ba99ef3dc257e300df\<newline>''),
    (''--merges --oneline 862a51f8b6294a4b0729a7c5c929bfd67068d962..dcab2065d59495532bbce07c9af6c778f6afe178'',
       ''dcab2065d594 Merge branch 'btf-work' into verifier-work\<newline>''),
    (''--oneline 862a51f8b6294a4b0729a7c5c929bfd67068d962..dcab2065d59495532bbce07c9af6c778f6afe178 -- kernel/bpf/verifier.c'',
       ''dcab2065d594 Merge branch 'btf-work' into verifier-work\<newline>ee17560c8b77 bpf: btf id checks\<newline>16d4afa270ff bpf: split check_func_arg\<newline>''),
    (''--merges --oneline 16d4afa270ff905221b8edc8c851e6275a3f7da4..ee17560c8b77385b5bb8d8687820f9b82f3fdcdf'',
       ''''),
    (''--oneline 16d4afa270ff905221b8edc8c851e6275a3f7da4..ee17560c8b77385b5bb8d8687820f9b82f3fdcdf -- kernel/bpf/verifier.c'',
       ''ee17560c8b77 bpf: btf id checks\<newline>''),
    (''--reverse --no-merges --format='%H' 16d4afa270ff905221b8edc8c851e6275a3f7da4..ee17560c8b77385b5bb8d8687820f9b82f3fdcdf'',
       ''ee17560c8b77385b5bb8d8687820f9b82f3fdcdf\<newline>''),
    (''--merges --oneline 32d332da761f44df7959e5887b6b94cb4667d781..e5353879bd69bfddcb465dad176ff52db8319d6f'',
       ''''),
    (''--oneline 32d332da761f44df7959e5887b6b94cb4667d781..e5353879bd69bfddcb465dad176ff52db8319d6f -- kernel/bpf/verifier.c'',
       ''e5353879bd69 bpf: verifier selftest hook\<newline>''),
    (''--merges --oneline ae23b94ccaf714337e4ce5ba99ef3dc257e300df..7e83ca2a65d6f90a809c8570c6c905a941b87732'',
       ''''),
    (''--oneline ae23b94ccaf714337e4ce5ba99ef3dc257e300df..7e83ca2a65d6f90a809c8570c6c905a941b87732 -- kernel/bpf/verifier.c'',
       ''''),
    (''--merges --oneline 6b1f53303a732ccc8c6aae6640399827c15250e3..b9f85daa6f83cf02ce5c31913d1f64d3f5c8fade'',
       ''''),
    (''--oneline 6b1f53303a732ccc8c6aae6640399827c15250e3..b9f85daa6f83cf02ce5c31913d1f64d3f5c8fade -- kernel/bpf/verifier.c'',
       ''f29bc91bbdab bpf: track scalar ids\<newline>''),
    (''--reverse --no-merges --format='%H' 6b1f53303a732ccc8c6aae6640399827c15250e3..b9f85daa6f83cf02ce5c31913d1f64d3f5c8fade'',
       ''f29bc91bbdab169fc0c0a326965953d11c7dff83\<newline>b9f85daa6f83cf02ce5c31913d1f64d3f5c8fade\<newline>'')]"

definition toy_shell :: "string \<Rightarrow> completed" where
  "toy_shell cmd =
     answer
       (if prefix (''git rev-parse '') cmd
        then map_of toy_revs (drop (length (''git rev-parse '')) cmd)
        else if prefix (''git show -s --format=%B '') cmd
        then map_of toy_messages (drop (length (''git show -s --format=%B '')) cmd)
        else if prefix (''git show -s --format='%s' '') cmd
        then map_of toy_subjects (drop (length (''git show -s --format='%s' '')) cmd)
        else if prefix (''git show -s --format='%b' '') cmd
        then map_of toy_bodies (drop (length (''git show -s --format='%b' '')) cmd)
        else if prefix (''git show -s --format='%an <%ae>' '') cmd
        then map_of toy_authors (drop (length (''git show -s --format='%an <%ae>' '')) cmd)
        else if prefix (''git show -s --format='%ci' '') cmd
        then map_of toy_dates (drop (length (''git show -s --format='%ci' '')) cmd)
        else if prefix (''git show --name-only --format='' @ [CHR 0x27, CHR 0x27] @ '' '') cmd
        then map_of toy_names (drop (length (''git show --name-only --format='' @ [CHR 0x27, CHR 0x27] @ '' '')) cmd)
        else if prefix (''git log '') cmd
        then map_of toy_logs (drop (length (''git log '')) cmd)
        else None)"

definition toy_env :: env where
  "toy_env = \<lparr>dotgit_exists = True, shell = toy_shell\<rparr>"

text \<open>
  A second repository: a single root commit \<open>r0\<close>, tagged \<open>v0.1\<close>, that adds \<open>README\<close>
  only. \<open>v0.1^\<close> names nothing, so every range query starting at \<open>v0.1^\<close> fails.
\<close>

definition hash_r0 :: string where
  "hash_r0 = ''5f0c1e3a9d2b4c6e8f7a1b3d5c7e9f0a2b4c6d8e''"

definition lone_shell :: "string \<Rightarrow> completed" where
  "lone_shell cmd =
     answer
       (if prefix ''git rev-parse '' cmd
        then map_of [(''v0.1'', ''5f0c1e3a9d2b4c6e8f7a1b3d5c7e9f0a2b4c6d8e\<newline>'')]
               (drop (length ''git rev-parse '') cmd)
        else if prefix (''git show --name-only --format='' @ [CHR 0x27, CHR 0x27] @ '' '') cmd
        then map_of [(''5f0c1e3a9d2b4c6e8f7a1b3d5c7e9f0a2b4c6d8e'', ''README\<newline>'')]
               (drop (length (''git show --name-only --format='' @ [CHR 0x27, CHR 0x27] @ '' '')) cmd)
        else None)"

definition lone_env :: env where
  "lone_env = \<lparr>dotgit_exists = True, shell = lone_shell\<rparr>"

section \<open>The command helper and the loop of \<open>commits.py\<close>\<close>

lemma run_command_eq:
  "run_command e cmd c =
     (if succeeds e cmd then (Inr (out_text e cmd), c)
      else (Inl (SystemExit 1), c\<lparr>err := err c @ failure_lines e cmd\<rparr>))"
  by (simp add: run_command_def subprocess_run_def succeeds_def out_text_def failure_lines_def
      print_err_def Let_def)

lemma get_commit_details_eq:
  "get_commit_details e h c =
     (if \<not> succeeds e (message_cmd h) then
        (Inl (SystemExit 1), c\<lparr>err := err c @ failure_lines e (message_cmd h)\<rparr>)
      else if \<not> succeeds e (names_cmd h) then
        (Inl (SystemExit 1), c\<lparr>err := err c @ failure_lines e (names_cmd h)\<rparr>)
      else if \<not> succeeds e (author_cmd h) then
        (Inl (SystemExit 1), c\<lparr>err := err c @ failure_lines e (author_cmd h)\<rparr>)
      else if \<not> succeeds e (date_cmd h) then
        (Inl (SystemExit 1), c\<lparr>err := err c @ failure_lines e (date_cmd h)\<rparr>)
      else (Inr (commit_record e h), c))"
  by (simp add: get_commit_details_def bind_def run_command_eq commit_record_def listed_def
      message_cmd_def names_cmd_def author_cmd_def date_cmd_def)

lemma get_commit_details_ok:
  "details_ok e h \<Longrightarrow> get_commit_details e h c = (Inr (commit_record e h), c)"
  by (simp add: get_commit_details_eq details_ok_def)

lemma get_commit_details_Inr:
  "get_commit_details e h c = (Inr d, c') \<Longrightarrow> d = commit_record e h \<and> c' = c"
  by (simp add: get_commit_details_eq split: if_splits)

lemma get_commit_details_Inl:
  "get_commit_details e h c = (Inl x, c') \<Longrightarrow>
     x = SystemExit 1 \<and> out c' = out c \<and> (\<exists>cmd. err c' = err c @ failure_lines e cmd)"
  by (auto simp add: get_commit_details_eq split: if_splits)

lemma commits_loop_ok:
  "\<forall>h\<in>set hs. h \<noteq> [] \<longrightarrow> details_ok e h \<Longrightarrow>
   commits_loop e hs acc c = (Inr (acc @ map (commit_record e) (filter (\<lambda>h. h \<noteq> []) hs)), c)"
  by (induction hs arbitrary: acc) (simp_all add: get_commit_details_ok)

lemma commits_loop_Inr:
  "commits_loop e hs acc c = (Inr res, c') \<Longrightarrow>
   res = acc @ map (commit_record e) (filter (\<lambda>h. h \<noteq> []) hs) \<and> c' = c"
proof (induction hs arbitrary: acc)
  case Nil
  then show ?case by simp
next
  case (Cons h hs)
  show ?case
  proof (cases "h = []")
    case True
    with Cons show ?thesis by simp
  next
    case False
    with Cons.prems obtain d c1 where d: "get_commit_details e h c = (Inr d, c1)"
      and rest: "commits_loop e hs (acc @ [d]) c1 = (Inr res, c')"
      by (auto split: prod.splits sum.splits)
    from d have dc: "d = commit_record e h" "c1 = c" by (simp_all add: get_commit_details_Inr)
    with rest have "commits_loop e hs (acc @ [d]) c = (Inr res, c')" by simp
    from Cons.IH[OF this] dc False show ?thesis by simp
  qed
qed

lemma commits_loop_Inl:
  "commits_loop e hs acc c = (Inl x, c') \<Longrightarrow>
     x = SystemExit 1 \<and> out c' = out c \<and> (\<exists>cmd. err c' = err c @ failure_lines e cmd)"
proof (induction hs arbitrary: acc)
  case Nil
  then show ?case by simp
next
  case (Cons h hs)
  show ?case
  proof (cases "h = []")
    case True
    with Cons show ?thesis by simp
  next
    case False
    show ?thesis
    proof (cases "get_commit_details e h c")
      case (Pair r c1)
      show ?thesis
      proof (cases r)
        case (Inl y)
        with Pair Cons.prems False have "get_commit_details e h c = (Inl x, c')" by simp
        then show ?thesis by (rule get_commit_details_Inl)
      next
        case (Inr d)
        with Pair have "c1 = c" by (simp add: get_commit_details_Inr)
        with Pair Inr Cons.prems False have "commits_loop e hs (acc @ [d]) c = (Inl x, c')" by simp
        then show ?thesis by (rule Cons.IH)
      qed
    qed
  qed
qed

section \<open>\<open>main\<close> of \<open>commits.py\<close>\<close>

lemma verify_refs_eq:
  "verify_refs e s t c =
     (if \<not> succeeds e (rev_parse_cmd s) then
        (Inl (SystemExit 1), c\<lparr>err := err c @ failure_lines e (rev_parse_cmd s)\<rparr>)
      else if \<not> succeeds e (rev_parse_cmd t) then
        (Inl (SystemExit 1), c\<lparr>err := err c @ failure_lines e (rev_parse_cmd t)\<rparr>)
      else (Inr (out_text e (rev_parse_cmd t)), c))"
  by (simp add: verify_refs_def bind_def run_command_eq rev_parse_cmd_def)

lemma get_commits_between_refs_eq:
  "get_commits_between_refs e s t target_file c =
     (if succeeds e (range_cmd s t)
      then (Inr (if out_text e (range_cmd s t) \<noteq> []
                 then split_nl (out_text e (range_cmd s t)) else []), c)
      else (Inl (SystemExit 1), c\<lparr>err := err c @ failure_lines e (range_cmd s t)\<rparr>))"
  by (simp add: get_commits_between_refs_def bind_def run_command_eq range_cmd_def
      target_file_def)

lemma filter_guarded_split:
  "filter (\<lambda>l. l \<noteq> []) (if text \<noteq> [] then split_nl text else []) = listed text"
  by (simp add: listed_def)

lemma main_commits_unfold:
  "main_commits e s t c =
     (if \<not> dotgit_exists e then
        (Inl (SystemExit 1), c\<lparr>err := err c @ [''Error: Not in a git repository'']\<rparr>)
      else if \<not> succeeds e (rev_parse_cmd s) then
        (Inl (SystemExit 1), c\<lparr>err := err c @ failure_lines e (rev_parse_cmd s)\<rparr>)
      else if \<not> succeeds e (rev_parse_cmd t) then
        (Inl (SystemExit 1), c\<lparr>err := err c @ failure_lines e (rev_parse_cmd t)\<rparr>)
      else if \<not> succeeds e (range_cmd s t) then
        (Inl (SystemExit 1),
         c\<lparr>err := err c @ commits_progress s t # failure_lines e (range_cmd s t)\<rparr>)
      else
        (case commits_loop e (if out_text e (range_cmd s t) \<noteq> []
                              then split_nl (out_text e (range_cmd s t)) else []) []
                (c\<lparr>err := err c @ [commits_progress s t]\<rparr>) of
           (Inl x, c4) \<Rightarrow> (Inl x, c4)
         | (Inr res, c4) \<Rightarrow> (Inr (), c4\<lparr>out := out c4 @ [commits_report s t res]\<rparr>)))"
proof -
  have prog: "''Analyzing commits between '' @ s @ '' and '' @ t
                @ '' (inclusive) that modified '' @ target_file = commits_progress s t"
    by (simp add: commits_progress_def target_file_def)
  have meta: "\<And>n. dict_set ''commit_count'' n
                [(''target_file'', JStr target_file), (''start_ref'', JStr s), (''end_ref'', JStr t)]
              = [(''target_file'', JStr ''kernel/bpf/verifier.c''), (''start_ref'', JStr s),
                 (''end_ref'', JStr t), (''commit_count'', n)]"
    by (simp add: target_file_def)
  show ?thesis
    unfolding main_commits_def prog meta Let_def verify_refs_eq get_commits_between_refs_eq
    by (simp add: print_err_def print_out_def commits_report_def
        split: prod.splits sum.splits del: commits_loop.simps)
qed

lemma main_commits_ok:
  assumes "dotgit_exists e"
    and "succeeds e (rev_parse_cmd s)"
    and "succeeds e (rev_parse_cmd t)"
    and "succeeds e (range_cmd s t)"
    and "\<forall>h\<in>set (listed (out_text e (range_cmd s t))). details_ok e h"
  shows "main_commits e s t c =
     (Inr (),
      c\<lparr>out := out c @ [commits_report s t (map (commit_record e)
                           (listed (out_text e (range_cmd s t))))],
        err := err c @ [commits_progress s t]\<rparr>)"
proof -
  let ?text = "out_text e (range_cmd s t)"
  let ?hs = "if ?text \<noteq> [] then split_nl ?text else []"
  have "\<forall>h\<in>set ?hs. h \<noteq> [] \<longrightarrow> details_ok e h"
    using assms(5) by (auto simp add: listed_def)
  then have "\<And>c. commits_loop e ?hs [] c
      = (Inr ([] @ map (commit_record e) (filter (\<lambda>h. h \<noteq> []) ?hs)), c)"
    by (rule commits_loop_ok)
  then have loop: "\<And>c. commits_loop e ?hs [] c = (Inr (map (commit_record e) (listed ?text)), c)"
    by (simp only: filter_guarded_split append_Nil)
  show ?thesis
    unfolding main_commits_unfold loop using assms(1-4) by simp
qed

lemma main_commits_Inr:
  assumes "main_commits e s t c = (Inr u, c')"
  shows "out c' = out c @ [commits_report s t (map (commit_record e)
                             (listed (out_text e (range_cmd s t))))]"
proof -
  let ?text = "out_text e (range_cmd s t)"
  let ?hs = "if ?text \<noteq> [] then split_nl ?text else []"
  let ?c2 = "c\<lparr>err := err c @ [commits_progress s t]\<rparr>"
  from assms obtain res c4 where loop: "commits_loop e ?hs [] ?c2 = (Inr res, c4)"
    and c': "c' = c4\<lparr>out := out c4 @ [commits_report s t res]\<rparr>"
    unfolding main_commits_unfold
    by (auto split: if_splits prod.splits sum.splits simp del: commits_loop.simps)
  from commits_loop_Inr[OF loop] have "res = map (commit_record e) (listed ?text)" "c4 = ?c2"
    by (simp_all only: filter_guarded_split append_Nil)
  with c' show ?thesis by simp
qed

lemma main_commits_Inl:
  assumes "main_commits e s t c = (Inl x, c')"
  shows "x = SystemExit 1 \<and> out c' = out c \<and> err c' \<noteq> err c"
proof -
  let ?text = "out_text e (range_cmd s t)"
  let ?hs = "if ?text \<noteq> [] then split_nl ?text else []"
  let ?c2 = "c\<lparr>err := err c @ [commits_progress s t]\<rparr>"
  from assms consider
      (early) "x = SystemExit 1" "out c' = out c" "err c' \<noteq> err c"
    | (loop) "commits_loop e ?hs [] ?c2 = (Inl x, c')"
    unfolding main_commits_unfold
    by (auto simp add: failure_lines_def
        split: if_splits prod.splits sum.splits simp del: commits_loop.simps)
  then show ?thesis
  proof cases
    case early
    then show ?thesis by simp
  next
    case loop
    from commits_loop_Inl[OF loop] show ?thesis by (auto simp add: failure_lines_def)
  qed
qed

section \<open>Actions that only add to standard error\<close>

lemma quietI:
  assumes "\<And>c v c'. m c = (Inr v, c') \<Longrightarrow>
             \<exists>ls. c' = c\<lparr>err := err c @ ls\<rparr> \<and> handler_line \<notin> set ls"
    and "\<And>c x c'. m c = (Inl x, c') \<Longrightarrow>
           x = SystemExit 1 \<and>
           (\<exists>ls. c' = c\<lparr>err := err c @ ls\<rparr> \<and> ls \<noteq> [] \<and> handler_line \<notin> set ls)"
  shows "quiet m"
  unfolding quiet_def
proof
  fix c
  show "case m c of
          (Inr v, c') \<Rightarrow> (\<exists>ls. c' = c\<lparr>err := err c @ ls\<rparr> \<and> handler_line \<notin> set ls)
        | (Inl x, c') \<Rightarrow>
            x = SystemExit 1 \<and>
            (\<exists>ls. c' = c\<lparr>err := err c @ ls\<rparr> \<and> ls \<noteq> [] \<and> handler_line \<notin> set ls)"
  proof (cases "m c")
    case (Pair r c')
    then show ?thesis using assms[of c _ c'] by (cases r) auto
  qed
qed

lemma quiet_Inr:
  "quiet m \<Longrightarrow> m c = (Inr v, c') \<Longrightarrow>
     \<exists>ls. c' = c\<lparr>err := err c @ ls\<rparr> \<and> handler_line \<notin> set ls"
  unfolding quiet_def by (drule spec[of _ c]) simp

lemma quiet_Inl:
  "quiet m \<Longrightarrow> m c = (Inl x, c') \<Longrightarrow>
     x = SystemExit 1 \<and>
     (\<exists>ls. c' = c\<lparr>err := err c @ ls\<rparr> \<and> ls \<noteq> [] \<and> handler_line \<notin> set ls)"
  unfolding quiet_def by (drule spec[of _ c]) simp

lemma quiet_Inr_out: "quiet m \<Longrightarrow> m c = (Inr v, c') \<Longrightarrow> out c' = out c"
  by (auto dest: quiet_Inr)

lemma quiet_Inl_out:
  "quiet m \<Longrightarrow> m c = (Inl x, c') \<Longrightarrow> x = SystemExit 1 \<and> out c' = out c \<and> err c' \<noteq> err c"
  by (auto dest: quiet_Inl)

lemma quiet_return: "quiet (\<lambda>c. (Inr v, c))"
  unfolding quiet_def
proof
  fix c :: console
  have "c = c\<lparr>err := err c @ []\<rparr> \<and> handler_line \<notin> set []" by simp
  then have "\<exists>ls. c = c\<lparr>err := err c @ ls\<rparr> \<and> handler_line \<notin> set ls" by (rule exI)
  then show "case (Inr v, c) of
          (Inr v, c') \<Rightarrow> (\<exists>ls. c' = c\<lparr>err := err c @ ls\<rparr> \<and> handler_line \<notin> set ls)
        | (Inl x, c') \<Rightarrow>
            x = SystemExit 1 \<and>
            (\<exists>ls. c' = c\<lparr>err := err c @ ls\<rparr> \<and> ls \<noteq> [] \<and> handler_line \<notin> set ls)"
    by simp
qed

lemma failure_lines_not_handler: "handler_line \<notin> set (failure_lines e cmd)"
  by (simp add: failure_lines_def handler_line_def)

lemma quiet_run_command: "quiet (run_command e cmd)"
proof (rule quietI)
  fix c v c'
  assume "run_command e cmd c = (Inr v, c')"
  then have "c' = c\<lparr>err := err c @ []\<rparr>" by (simp add: run_command_eq split: if_splits)
  then show "\<exists>ls. c' = c\<lparr>err := err c @ ls\<rparr> \<and> handler_line \<notin> set ls"
    by (intro exI[of _ "[]"]) simp
next
  fix c x c'
  assume "run_command e cmd c = (Inl x, c')"
  then have "x = SystemExit 1" "c' = c\<lparr>err := err c @ failure_lines e cmd\<rparr>"
    by (simp_all add: run_command_eq split: if_splits)
  moreover have "failure_lines e cmd \<noteq> []" by (simp add: failure_lines_def)
  ultimately show "x = SystemExit 1 \<and>
      (\<exists>ls. c' = c\<lparr>err := err c @ ls\<rparr> \<and> ls \<noteq> [] \<and> handler_line \<notin> set ls)"
    using failure_lines_not_handler by blast
qed

lemma bind_Inr:
  "bind m f c = (Inr r, c') \<Longrightarrow> \<exists>v c1. m c = (Inr v, c1) \<and> f v c1 = (Inr r, c')"
  by (auto simp add: bind_def split: prod.splits sum.splits)

lemma bind_Inl:
  "bind m f c = (Inl x, c') \<Longrightarrow>
     m c = (Inl x, c') \<or> (\<exists>v c1. m c = (Inr v, c1) \<and> f v c1 = (Inl x, c'))"
  by (auto simp add: bind_def split: prod.splits sum.splits)

lemma quiet_bind:
  assumes "quiet m" and "\<And>v. quiet (f v)"
  shows "quiet (bind m f)"
proof (rule quietI)
  fix c v c'
  assume "bind m f c = (Inr v, c')"
  then obtain w c1 where 1: "m c = (Inr w, c1)" and 2: "f w c1 = (Inr v, c')"
    by (blast dest: bind_Inr)
  from quiet_Inr[OF assms(1) 1] obtain ls1 where
    l1: "c1 = c\<lparr>err := err c @ ls1\<rparr>" "handler_line \<notin> set ls1" by blast
  from quiet_Inr[OF assms(2) 2] obtain ls2 where
    l2: "c' = c1\<lparr>err := err c1 @ ls2\<rparr>" "handler_line \<notin> set ls2" by blast
  from l1 l2 have "c' = c\<lparr>err := err c @ (ls1 @ ls2)\<rparr>" "handler_line \<notin> set (ls1 @ ls2)"
    by simp_all
  then show "\<exists>ls. c' = c\<lparr>err := err c @ ls\<rparr> \<and> handler_line \<notin> set ls" by blast
next
  fix c x c'
  assume "bind m f c = (Inl x, c')"
  then consider (first) "m c = (Inl x, c')"
    | (second) w c1 where "m c = (Inr w, c1)" "f w c1 = (Inl x, c')"
    by (blast dest: bind_Inl)
  then show "x = SystemExit 1 \<and>
      (\<exists>ls. c' = c\<lparr>err := err c @ ls\<rparr> \<and> ls \<noteq> [] \<and> handler_line \<notin> set ls)"
  proof cases
    case first
    then show ?thesis by (rule quiet_Inl[OF assms(1)])
  next
    case second
    from quiet_Inr[OF assms(1) second(1)] obtain ls1 where
      l1: "c1 = c\<lparr>err := err c @ ls1\<rparr>" "handler_line \<notin> set ls1" by blast
    from quiet_Inl[OF assms(2) second(2)] obtain ls2 where
      x: "x = SystemExit 1" and
      l2: "c' = c1\<lparr>err := err c1 @ ls2\<rparr>" "ls2 \<noteq> []" "handler_line \<notin> set ls2" by blast
    from l1 l2 have "c' = c\<lparr>err := err c @ (ls1 @ ls2)\<rparr>" "ls1 @ ls2 \<noteq> []"
      "handler_line \<notin> set (ls1 @ ls2)"
      by simp_all
    with x show ?thesis by blast
  qed
qed

lemma quiet_after_print:
  assumes "quiet m" and "line \<noteq> handler_line"
  shows "quiet (\<lambda>c. m (print_err line c))"
proof (rule quietI)
  fix c v c'
  assume "m (print_err line c) = (Inr v, c')"
  from quiet_Inr[OF assms(1) this] obtain ls where
    "c' = (print_err line c)\<lparr>err := err (print_err line c) @ ls\<rparr>" "handler_line \<notin> set ls"
    by blast
  with assms(2) have "c' = c\<lparr>err := err c @ (line # ls)\<rparr>" "handler_line \<notin> set (line # ls)"
    by (auto simp add: print_err_def)
  then show "\<exists>ls. c' = c\<lparr>err := err c @ ls\<rparr> \<and> handler_line \<notin> set ls" by blast
next
  fix c x c'
  assume "m (print_err line c) = (Inl x, c')"
  from quiet_Inl[OF assms(1) this] obtain ls where x: "x = SystemExit 1" and
    "c' = (print_err line c)\<lparr>err := err (print_err line c) @ ls\<rparr>" "handler_line \<notin> set ls"
    by blast
  with assms(2) have "c' = c\<lparr>err := err c @ (line # ls)\<rparr>" "line # ls \<noteq> []"
    "handler_line \<notin> set (line # ls)"
    by (auto simp add: print_err_def)
  with x show "x = SystemExit 1 \<and>
      (\<exists>ls. c' = c\<lparr>err := err c @ ls\<rparr> \<and> ls \<noteq> [] \<and> handler_line \<notin> set ls)" by blast
qed

lemma found_line_not_handler: "''Found ('' @ m @ '')  '' @ subject \<noteq> handler_line"
  by (simp add: handler_line_def)

lemma quiet_if: "quiet a \<Longrightarrow> quiet b \<Longrightarrow> quiet (if p then a else b)"
  by simp

lemma quiet_get_merge_details: "quiet (get_merge_details e m)"
  unfolding get_merge_details_def
  by (intro quiet_bind quiet_run_command quiet_return)

lemma quiet_get_commit_details_ps: "quiet (get_commit_details_ps e h)"
  unfolding get_commit_details_ps_def
  by (intro quiet_bind quiet_run_command quiet_return)

lemma quiet_get_commit_details: "quiet (get_commit_details e h)"
  unfolding get_commit_details_def
  by (intro quiet_bind quiet_run_command quiet_return)

lemma quiet_checks:
  "quiet (check_merge_contains_merges e p1 p2)"
  "quiet (check_merge_affects_verifier e p1 p2 f)"
  "quiet (get_commits_in_merge e p1 p2)"
  "quiet (get_merge_commits e s t)"
  "quiet (get_commits_between_refs e s t f)"
  "quiet (verify_refs e s t)"
  unfolding check_merge_contains_merges_def check_merge_affects_verifier_def
    get_commits_in_merge_def get_merge_commits_def get_commits_between_refs_def verify_refs_def
  by (intro quiet_bind quiet_run_command quiet_return)+

lemma quiet_patchset_commits_loop: "quiet (patchset_commits_loop e hs acc)"
proof (induction hs arbitrary: acc)
  case Nil
  show ?case by (simp add: quiet_return)
next
  case (Cons h hs)
  show ?case
  proof (cases "h = []")
    case True
    have "patchset_commits_loop e (h # hs) acc = patchset_commits_loop e hs acc"
      using True by (simp add: fun_eq_iff)
    then show ?thesis using Cons.IH by simp
  next
    case False
    have "patchset_commits_loop e (h # hs) acc
            = bind (get_commit_details_ps e h) (\<lambda>d. patchset_commits_loop e hs (acc @ [d]))"
      using False by (simp add: fun_eq_iff bind_def split: prod.splits sum.splits)
    then show ?thesis
      using Cons.IH by (simp add: quiet_bind quiet_get_commit_details_ps)
  qed
qed

lemma quiet_process_merge: "quiet (process_merge e m)"
  unfolding process_merge_def
  by (intro quiet_bind quiet_get_merge_details quiet_checks quiet_if quiet_return
      quiet_after_print quiet_patchset_commits_loop found_line_not_handler)

lemma quiet_merges_loop: "quiet (merges_loop e ms acc)"
proof (induction ms arbitrary: acc)
  case Nil
  show ?case by (simp add: quiet_return)
next
  case (Cons m ms)
  show ?case
  proof (cases "m = []")
    case True
    have "merges_loop e (m # ms) acc = merges_loop e ms acc"
      using True by (simp add: fun_eq_iff)
    then show ?thesis using Cons.IH by simp
  next
    case False
    have "merges_loop e (m # ms) acc
            = bind (process_merge e m)
                (\<lambda>r. case r of None \<Rightarrow> merges_loop e ms acc
                              | Some p \<Rightarrow> merges_loop e ms (acc @ [p]))"
      using False by (simp add: fun_eq_iff bind_def split: prod.splits sum.splits option.splits)
    moreover have "\<And>r. quiet (case r of None \<Rightarrow> merges_loop e ms acc
                                       | Some p \<Rightarrow> merges_loop e ms (acc @ [p]))"
      using Cons.IH by (simp split: option.splits)
    ultimately show ?thesis
      by (simp add: quiet_bind quiet_process_merge)
  qed
qed

lemma quiet_commits_loop: "quiet (commits_loop e hs acc)"
proof (induction hs arbitrary: acc)
  case Nil
  show ?case by (simp add: quiet_return)
next
  case (Cons h hs)
  show ?case
  proof (cases "h = []")
    case True
    have "commits_loop e (h # hs) acc = commits_loop e hs acc"
      using True by (simp add: fun_eq_iff)
    then show ?thesis using Cons.IH by simp
  next
    case False
    have "commits_loop e (h # hs) acc
            = bind (get_commit_details e h) (\<lambda>d. commits_loop e hs (acc @ [d]))"
      using False by (simp add: fun_eq_iff bind_def split: prod.splits sum.splits)
    then show ?thesis
      using Cons.IH by (simp add: quiet_bind quiet_get_commit_details)
  qed
qed

section \<open>The loop body and the loops of \<open>patchsets.py\<close>\<close>

lemma run_command_Inr:
  "run_command e cmd c = (Inr v, c') \<Longrightarrow> succeeds e cmd \<and> v = out_text e cmd \<and> c' = c"
  by (simp add: run_command_eq split: if_splits)

lemma get_merge_details_Inr:
  assumes "get_merge_details e m c = (Inr md, c')"
  shows "md = merge_record e m \<and> c' = c"
  using assms unfolding get_merge_details_def
  by (auto dest!: bind_Inr run_command_Inr
      simp add: merge_record_def parent1_of_def parent2_of_def subject_cmd_def body_cmd_def
        author_cmd_def date_cmd_def rev_parse_cmd_def)

lemma get_commit_details_ps_Inr:
  assumes "get_commit_details_ps e h c = (Inr d, c')"
  shows "d = commit_record_ps e h \<and> c' = c"
  using assms unfolding get_commit_details_ps_def
  by (auto dest!: bind_Inr run_command_Inr
      simp add: commit_record_ps_def subject_cmd_def body_cmd_def names_cmd_def
        author_cmd_def date_cmd_def listed_def)

lemma check_merge_contains_merges_Inr:
  assumes "check_merge_contains_merges e p1 p2 c = (Inr b, c')"
  shows "b = (out_text e (nested_cmd p1 p2) \<noteq> []) \<and> c' = c"
  using assms unfolding check_merge_contains_merges_def
  by (auto dest!: bind_Inr run_command_Inr simp add: nested_cmd_def)

lemma check_merge_affects_verifier_Inr:
  assumes "check_merge_affects_verifier e p1 p2 target_file c = (Inr b, c')"
  shows "b = (out_text e (affects_cmd p1 p2) \<noteq> []) \<and> c' = c"
  using assms unfolding check_merge_affects_verifier_def
  by (auto dest!: bind_Inr run_command_Inr simp add: affects_cmd_def target_file_def)

lemma get_commits_in_merge_Inr:
  assumes "get_commits_in_merge e p1 p2 c = (Inr hs, c')"
  shows "filter (\<lambda>l. l \<noteq> []) hs = listed (out_text e (payload_cmd p1 p2)) \<and> c' = c"
  using assms unfolding get_commits_in_merge_def
  by (auto dest!: bind_Inr run_command_Inr simp add: payload_cmd_def listed_def)

lemma get_merge_commits_Inr:
  assumes "get_merge_commits e s t c = (Inr ms, c')"
  shows "filter (\<lambda>l. l \<noteq> []) ms = listed (out_text e (merges_cmd s t)) \<and> c' = c"
  using assms unfolding get_merge_commits_def
  by (auto dest!: bind_Inr run_command_Inr simp add: merges_cmd_def listed_def)

lemma patchset_commits_loop_Inr:
  "patchset_commits_loop e hs acc c = (Inr res, c') \<Longrightarrow>
   res = acc @ map (commit_record_ps e) (filter (\<lambda>h. h \<noteq> []) hs)"
proof (induction hs arbitrary: acc c)
  case Nil
  then show ?case by simp
next
  case (Cons h hs)
  show ?case
  proof (cases "h = []")
    case True
    with Cons show ?thesis by simp
  next
    case False
    with Cons.prems obtain d c1 where d: "get_commit_details_ps e h c = (Inr d, c1)"
      and rest: "patchset_commits_loop e hs (acc @ [d]) c1 = (Inr res, c')"
      by (auto split: prod.splits sum.splits)
    from d have "d = commit_record_ps e h" by (simp add: get_commit_details_ps_Inr)
    with Cons.IH[OF rest] False show ?thesis by simp
  qed
qed

lemma process_merge_Inr:
  assumes "process_merge e m c = (Inr r, c')"
  shows "r = (if accepted e m then Some (patchset_record e m) else None)"
proof -
  from assms obtain md c1 nested c2 where
    md: "get_merge_details e m c = (Inr md, c1)" and
    nested: "check_merge_contains_merges e (md_parent1 md) (md_parent2 md) c1 = (Inr nested, c2)" and
    rest: "(if nested then (\<lambda>c. (Inr None, c))
       else if str_contains ''Merge tag'' (md_subject md) then (\<lambda>c. (Inr None, c))
       else
         bind (check_merge_affects_verifier e (md_parent1 md) (md_parent2 md) target_file)
           (\<lambda>affects.
              if affects then
                (\<lambda>c.
                   bind (get_commits_in_merge e (md_parent1 md) (md_parent2 md))
                     (\<lambda>commit_hashes.
                        bind (patchset_commits_loop e commit_hashes []) (\<lambda>commits c'.
                          (Inr (Some (JDict [(''merge_hash'', JStr m),
                                             (''merge_subject'', JStr (md_subject md)),
                                             (''merge_body'', JStr (md_body md)),
                                             (''merge_author'', JStr (md_author md)),
                                             (''merge_date'', JStr (md_date md)),
                                             (''commits'', JList commits)])),
                           c')))
                     (print_err (''Found ('' @ m @ '')  '' @ md_subject md) c))
              else (\<lambda>c. (Inr None, c)))) c2 = (Inr r, c')"
    unfolding process_merge_def by (blast dest!: bind_Inr)
  from md have mdr: "md = merge_record e m" by (simp add: get_merge_details_Inr)
  then have fields: "md_parent1 md = parent1_of e m" "md_parent2 md = parent2_of e m"
    "md_subject md = out_text e (subject_cmd m)" "md_body md = out_text e (body_cmd m)"
    "md_author md = out_text e (author_cmd m)" "md_date md = out_text e (date_cmd m)"
    by (simp_all add: merge_record_def)
  from nested have n: "nested = contains_merges e m"
    by (simp add: check_merge_contains_merges_Inr fields contains_merges_def)
  note rest' = rest[unfolded fields n]
  show ?thesis
  proof (cases "contains_merges e m \<or> tag_merge e m")
    case True
    with rest' show ?thesis by (auto simp add: accepted_def tag_merge_def split: if_splits)
  next
    case False
    with rest' obtain affects c3 where
      aff: "check_merge_affects_verifier e (parent1_of e m) (parent2_of e m) target_file c2
              = (Inr affects, c3)" and
      rest2: "(if affects then
                (\<lambda>c.
                   bind (get_commits_in_merge e (parent1_of e m) (parent2_of e m))
                     (\<lambda>commit_hashes.
                        bind (patchset_commits_loop e commit_hashes []) (\<lambda>commits c'.
                          (Inr (Some (JDict [(''merge_hash'', JStr m),
                                             (''merge_subject'', JStr (out_text e (subject_cmd m))),
                                             (''merge_body'', JStr (out_text e (body_cmd m))),
                                             (''merge_author'', JStr (out_text e (author_cmd m))),
                                             (''merge_date'', JStr (out_text e (date_cmd m))),
                                             (''commits'', JList commits)])),
                           c')))
                     (print_err (''Found ('' @ m @ '')  '' @ out_text e (subject_cmd m)) c))
              else (\<lambda>c. (Inr None, c))) c3 = (Inr r, c')"
      by (auto simp add: tag_merge_def dest!: bind_Inr)
    from aff have a: "affects = affects_verifier e m"
      by (simp add: check_merge_affects_verifier_Inr affects_verifier_def)
    show ?thesis
    proof (cases "affects_verifier e m")
      case no: False
      with rest2 a False show ?thesis by (simp add: accepted_def)
    next
      case yes: True
      with rest2 a obtain hs c4 res c5 where
        hs: "get_commits_in_merge e (parent1_of e m) (parent2_of e m)
               (print_err (''Found ('' @ m @ '')  '' @ out_text e (subject_cmd m)) c3) = (Inr hs, c4)" and
        loop: "patchset_commits_loop e hs [] c4 = (Inr res, c5)" and
        r: "r = Some (JDict [(''merge_hash'', JStr m),
                             (''merge_subject'', JStr (out_text e (subject_cmd m))),
                             (''merge_body'', JStr (out_text e (body_cmd m))),
                             (''merge_author'', JStr (out_text e (author_cmd m))),
                             (''merge_date'', JStr (out_text e (date_cmd m))),
                             (''commits'', JList res)])"
        by (auto dest!: bind_Inr)
      from hs have "filter (\<lambda>l. l \<noteq> []) hs
          = listed (out_text e (payload_cmd (parent1_of e m) (parent2_of e m)))"
        by (simp add: get_commits_in_merge_Inr)
      with patchset_commits_loop_Inr[OF loop]
      have "res = map (commit_record_ps e)
                    (listed (out_text e (payload_cmd (parent1_of e m) (parent2_of e m))))"
        by simp
      with r yes False show ?thesis by (simp add: accepted_def patchset_record_def)
    qed
  qed
qed

lemma merges_loop_Inr:
  "merges_loop e ms acc c = (Inr res, c') \<Longrightarrow>
   res = acc @ map (patchset_record e) (filter (accepted e) (filter (\<lambda>m. m \<noteq> []) ms))"
proof (induction ms arbitrary: acc c)
  case Nil
  then show ?case by simp
next
  case (Cons m ms)
  show ?case
  proof (cases "m = []")
    case True
    with Cons show ?thesis by simp
  next
    case False
    with Cons.prems obtain r c1 where pm: "process_merge e m c = (Inr r, c1)"
      and rest: "merges_loop e ms (case r of None \<Rightarrow> acc | Some p \<Rightarrow> acc @ [p]) c1 = (Inr res, c')"
      by (auto split: prod.splits sum.splits option.splits)
    from process_merge_Inr[OF pm] Cons.IH[OF rest] False
    show ?thesis by (simp split: if_splits)
  qed
qed

section \<open>\<open>main\<close> of \<open>patchsets.py\<close>\<close>

lemma patchsets_metadata:
  "dict_set ''patchset_count'' n
     [(''target_file'', JStr target_file), (''start_ref'', JStr s), (''end_ref'', JStr t)]
   = [(''target_file'', JStr ''kernel/bpf/verifier.c''), (''start_ref'', JStr s),
      (''end_ref'', JStr t), (''patchset_count'', n)]"
  by (simp add: target_file_def)

lemma main_patchsets_Inr:
  assumes "main_patchsets e s t c = (Inr u, c')"
  shows "out c' = out c @ [patchsets_report s t (map (patchset_record e)
           (filter (accepted e) (listed (out_text e (merges_cmd s t)))))]"
proof -
  from assms obtain v c1 ms c3 res c4 where
    refs: "verify_refs e s t c = (Inr v, c1)" and
    ms: "get_merge_commits e s t
           (print_err (''Analyzing merge commits between '' @ s @ '' and '' @ t
                       @ '' that affect '' @ target_file) c1) = (Inr ms, c3)" and
    loop: "merges_loop e ms [] c3 = (Inr res, c4)" and
    c': "c' = print_out (patchsets_report s t res) c4"
    unfolding main_patchsets_def patchsets_metadata Let_def patchsets_report_def
    by (auto split: if_splits prod.splits sum.splits exn.splits simp del: merges_loop.simps)
  from quiet_Inr_out[OF quiet_checks(6) refs] have o1: "out c1 = out c" by simp
  from quiet_Inr_out[OF quiet_checks(4) ms] have o3: "out c3 = out c1" by (simp add: print_err_def)
  from quiet_Inr_out[OF quiet_merges_loop loop] have o4: "out c4 = out c3" by simp
  from get_merge_commits_Inr[OF ms]
  have "filter (\<lambda>l. l \<noteq> []) ms = listed (out_text e (merges_cmd s t))" by simp
  with merges_loop_Inr[OF loop]
  have "res = map (patchset_record e) (filter (accepted e) (listed (out_text e (merges_cmd s t))))"
    by simp
  with c' o1 o3 o4 show ?thesis by (simp add: print_out_def)
qed

lemma main_patchsets_Inl:
  assumes "main_patchsets e s t c = (Inl x, c')"
  shows "x = SystemExit 1 \<and> out c' = out c \<and> err c' \<noteq> err c"
proof -
  let ?line = "''Analyzing merge commits between '' @ s @ '' and '' @ t
                 @ '' that affect '' @ target_file"
  from assms consider
      (norepo) "x = SystemExit 1" "c' = print_err ''Error: Not in a git repository'' c"
    | (handler) y c1 where "verify_refs e s t c = (Inl (CalledProcessError y), c1)"
    | (refs) "verify_refs e s t c = (Inl x, c')"
    | (listing) v c1 where "verify_refs e s t c = (Inr v, c1)"
        "get_merge_commits e s t (print_err ?line c1) = (Inl x, c')"
    | (loop) v c1 ms c3 where "verify_refs e s t c = (Inr v, c1)"
        "get_merge_commits e s t (print_err ?line c1) = (Inr ms, c3)"
        "merges_loop e ms [] c3 = (Inl x, c')"
    unfolding main_patchsets_def Let_def
    by (auto split: if_splits prod.splits sum.splits exn.splits simp del: merges_loop.simps)
  then show ?thesis
  proof cases
    case norepo
    then show ?thesis by (simp add: print_err_def)
  next
    case handler
    from quiet_Inl[OF quiet_checks(6) this] show ?thesis by simp
  next
    case refs
    from quiet_Inl_out[OF quiet_checks(6) this] show ?thesis by auto
  next
    case listing
    from quiet_Inr[OF quiet_checks(6) listing(1)] quiet_Inl[OF quiet_checks(4) listing(2)]
    show ?thesis by (auto simp add: print_err_def)
  next
    case loop
    from quiet_Inr[OF quiet_checks(6) loop(1)] quiet_Inr[OF quiet_checks(4) loop(2)]
      quiet_Inl[OF quiet_merges_loop loop(3)]
    show ?thesis by (auto simp add: print_err_def)
  qed
qed

lemma reported_patchsets_main:
  "set (reported_patchsets (snd (main_patchsets e s t console0)))
     \<subseteq> patchset_record e ` {m. accepted e m}"
proof (cases "main_patchsets e s t console0")
  case (Pair r c')
  show ?thesis
  proof (cases r)
    case (Inl x)
    with Pair have "out c' = out console0" by (simp add: main_patchsets_Inl)
    with Pair show ?thesis by (simp add: reported_patchsets_def console0_def)
  next
    case (Inr u)
    with Pair have "out c' = out console0 @ [patchsets_report s t (map (patchset_record e)
           (filter (accepted e) (listed (out_text e (merges_cmd s t)))))]"
      by (simp add: main_patchsets_Inr)
    with Pair show ?thesis
      by (auto simp add: reported_patchsets_def console0_def patchsets_report_def)
  qed
qed

lemma patchset_record_hash:
  "json_field ''merge_hash'' (patchset_record e m) = Some (JStr m)"
  by (simp add: patchset_record_def)

lemma reported_patchset_accepted:
  assumes "p \<in> set (reported_patchsets (snd (main_patchsets e s t console0)))"
    and "json_field ''merge_hash'' p = Some (JStr m)"
  shows "accepted e m \<and> p = patchset_record e m"
proof -
  from assms(1) reported_patchsets_main obtain m' where
    m': "accepted e m'" "p = patchset_record e m'" by blast
  with assms(2) have "m' = m" by (simp add: patchset_record_hash)
  with m' show ?thesis by simp
qed

section \<open>Where a reported patchset comes from\<close>




section \<open>Substring test, and the tool on the concrete repository\<close>

lemma str_contains_iff: "str_contains sub s \<longleftrightarrow> (\<exists>ps ss. s = ps @ sub @ ss)"
proof (induction s)
  case Nil
  show ?case by auto
next
  case (Cons ch cs)
  show ?case
  proof
    assume "str_contains sub (ch # cs)"
    then consider (here) "prefix sub (ch # cs)" | (later) "str_contains sub cs" by auto
    then show "\<exists>ps ss. ch # cs = ps @ sub @ ss"
    proof cases
      case here
      then obtain ss where "ch # cs = sub @ ss" by (auto simp add: prefix_def)
      then have "ch # cs = [] @ sub @ ss" by simp
      then show ?thesis by blast
    next
      case later
      with Cons.IH obtain ps ss where "cs = ps @ sub @ ss" by blast
      then have "ch # cs = (ch # ps) @ sub @ ss" by simp
      then show ?thesis by blast
    qed
  next
    assume "\<exists>ps ss. ch # cs = ps @ sub @ ss"
    then obtain ps ss where eq: "ch # cs = ps @ sub @ ss" by blast
    show "str_contains sub (ch # cs)"
    proof (cases ps)
      case Nil
      with eq have "prefix sub (ch # cs)" by (simp add: prefix_def)
      then show ?thesis by simp
    next
      case (Cons p ps')
      with eq have "cs = ps' @ sub @ ss" by simp
      with Cons.IH have "str_contains sub cs" by blast
      then show ?thesis by simp
    qed
  qed
qed

lemma toy_patchsets_hashes:
  "map (json_field ''merge_hash'')
     (reported_patchsets (snd (main_patchsets toy_env ''v1.0'' ''v2.0'' console0)))
   = [Some (JStr hash_mc), Some (JStr hash_m1)]"
  by code_simp

lemma toy_merges_listed:
  "listed (out_text toy_env (merges_cmd ''v1.0'' ''v2.0''))
     = [hash_m4, hash_mc, hash_m3, hash_m2, hash_m1]"
  by code_simp

lemma toy_commits_doc:
  "out (snd (main_commits toy_env ''v1.0'' ''v2.0'' console0))
     = [commits_report ''v1.0'' ''v2.0''
          (map (commit_record toy_env) [hash_d1, hash_x1, hash_t1, hash_a1, hash_c2, hash_c1])]"
  by code_simp

lemma toy_patchsets_doc:
  "out (snd (main_patchsets toy_env ''v1.0'' ''v2.0'' console0))
     = [patchsets_report ''v1.0'' ''v2.0'' (map (patchset_record toy_env) [hash_mc, hash_m1])]"
  by code_simp

section \<open>The two ways a run ends\<close>

lemma main_commits_outcome:
  "(fst (main_commits e s t console0) = Inr () \<and>
      out (snd (main_commits e s t console0)) =
        [commits_report s t (map (commit_record e) (listed (out_text e (range_cmd s t))))]) \<or>
   (fst (main_commits e s t console0) = Inl (SystemExit 1) \<and>
      out (snd (main_commits e s t console0)) = [] \<and>
      err (snd (main_commits e s t console0)) \<noteq> [])"
proof (cases "main_commits e s t console0")
  case (Pair r c')
  show ?thesis
  proof (cases r)
    case (Inl x)
    with Pair main_commits_Inl[of e s t console0 x c'] show ?thesis
      by (simp add: console0_def)
  next
    case (Inr u)
    with Pair main_commits_Inr[of e s t console0 u c'] show ?thesis
      by (simp add: console0_def)
  qed
qed

lemma main_patchsets_outcome:
  "(fst (main_patchsets e s t console0) = Inr () \<and>
      out (snd (main_patchsets e s t console0)) =
        [patchsets_report s t (map (patchset_record e)
           (filter (accepted e) (listed (out_text e (merges_cmd s t)))))]) \<or>
   (fst (main_patchsets e s t console0) = Inl (SystemExit 1) \<and>
      out (snd (main_patchsets e s t console0)) = [] \<and>
      err (snd (main_patchsets e s t console0)) \<noteq> [])"
proof (cases "main_patchsets e s t console0")
  case (Pair r c')
  show ?thesis
  proof (cases r)
    case (Inl x)
    with Pair main_patchsets_Inl[of e s t console0 x c'] show ?thesis
      by (simp add: console0_def)
  next
    case (Inr u)
    with Pair main_patchsets_Inr[of e s t console0 u c'] show ?thesis
      by (simp add: console0_def)
  qed
qed

section \<open>The handler of the reference check\<close>

lemma run_command_never_CalledProcessError:
  "fst (run_command e cmd c) \<noteq> Inl (CalledProcessError x)"
  by (simp add: run_command_eq)

lemma verify_refs_never_CalledProcessError:
  "fst (verify_refs e s t c) \<noteq> Inl (CalledProcessError x)"
  by (simp add: verify_refs_eq)

lemma main_commits_no_handler_line:
  "handler_line \<notin> set (err (snd (main_commits e s t console0)))"
proof -
  let ?hs = "if out_text e (range_cmd s t) \<noteq> []
             then split_nl (out_text e (range_cmd s t)) else []"
  let ?c2 = "console0\<lparr>err := err console0 @ [commits_progress s t]\<rparr>"
  have progress: "commits_progress s t \<noteq> handler_line"
    by (simp add: commits_progress_def handler_line_def)
  have norepo: "''Error: Not in a git repository'' \<noteq> handler_line"
    by (simp add: handler_line_def)
  have loop: "handler_line \<notin> set (err (snd (commits_loop e ?hs [] ?c2)))"
  proof (cases "commits_loop e ?hs [] ?c2")
    case (Pair r c4)
    have "\<exists>ls. c4 = ?c2\<lparr>err := err ?c2 @ ls\<rparr> \<and> handler_line \<notin> set ls"
    proof (cases r)
      case (Inl x)
      with Pair quiet_Inl[OF quiet_commits_loop, of e ?hs "[]" ?c2 x c4] show ?thesis by blast
    next
      case (Inr res)
      with Pair quiet_Inr[OF quiet_commits_loop, of e ?hs "[]" ?c2 res c4] show ?thesis by blast
    qed
    with Pair progress show ?thesis by (auto simp add: console0_def)
  qed
  show ?thesis
  proof (cases "commits_loop e ?hs [] ?c2")
    case (Pair r c4)
    with loop have "handler_line \<notin> set (err c4)" by simp
    with Pair progress norepo failure_lines_not_handler show ?thesis
      unfolding main_commits_unfold
      by (cases r) (simp_all add: console0_def)
  qed
qed

lemma main_patchsets_unfold:
  "main_patchsets e s t c =
     (if \<not> dotgit_exists e then
        (Inl (SystemExit 1), c\<lparr>err := err c @ [''Error: Not in a git repository'']\<rparr>)
      else
        (case bind (verify_refs e s t) (\<lambda>_ c1.
                bind (get_merge_commits e s t) (\<lambda>ms. merges_loop e ms [])
                  (print_err (patchsets_progress s t) c1)) c of
           (Inl x, c4) \<Rightarrow> (Inl x, c4)
         | (Inr res, c4) \<Rightarrow> (Inr (), c4\<lparr>out := out c4 @ [patchsets_report s t res]\<rparr>)))"
proof -
  have prog: "''Analyzing merge commits between '' @ s @ '' and '' @ t
                @ '' that affect '' @ target_file = patchsets_progress s t"
    by (simp add: patchsets_progress_def target_file_def)
  show ?thesis
    unfolding main_patchsets_def prog patchsets_metadata Let_def verify_refs_eq bind_def
    by (simp add: print_err_def print_out_def patchsets_report_def
        split: prod.splits sum.splits del: merges_loop.simps)
qed

lemma main_patchsets_no_handler_line:
  "handler_line \<notin> set (err (snd (main_patchsets e s t console0)))"
proof -
  have progress: "patchsets_progress s t \<noteq> handler_line"
    by (simp add: patchsets_progress_def handler_line_def)
  have norepo: "''Error: Not in a git repository'' \<noteq> handler_line"
    by (simp add: handler_line_def)
  let ?body = "bind (verify_refs e s t) (\<lambda>_ c1.
                 bind (get_merge_commits e s t) (\<lambda>ms. merges_loop e ms [])
                   (print_err (patchsets_progress s t) c1))"
  have q: "quiet ?body"
    by (intro quiet_bind quiet_checks quiet_after_print quiet_merges_loop progress)
  show ?thesis
  proof (cases "?body console0")
    case (Pair r c')
    have "\<exists>ls. c' = console0\<lparr>err := err console0 @ ls\<rparr> \<and> handler_line \<notin> set ls"
    proof (cases r)
      case (Inl x)
      with Pair quiet_Inl[OF q, of console0 x c'] show ?thesis by blast
    next
      case (Inr res)
      with Pair quiet_Inr[OF q, of console0 res c'] show ?thesis by blast
    qed
    then have "handler_line \<notin> set (err c')" by (auto simp add: console0_def)
    with Pair norepo show ?thesis
      unfolding main_patchsets_unfold
      by (cases r) (simp_all add: console0_def)
  qed
qed

section \<open>Stripping and splitting\<close>














section \<open>Claims about \<open>commits.py\<close>\<close>

text \<open>
  C3, as stated, fails. In the second repository \<open>.git\<close> exists and \<open>v0.1\<close> resolves, so
  \<open>Run(v0.1, v0.1)\<close> passes both preconditions, and the only commit of the range, the
  root \<open>r0\<close>, does not touch \<open>kernel/bpf/verifier.c\<close>. The range query
  \<open>git log v0.1^..v0.1 ...\<close> fails because the root has no parent, and the tool exits
  with status 1 and prints no report.
\<close>

theorem empty_range_report_counterexample:
  "dotgit_exists lone_env \<and>
   succeeds lone_env (rev_parse_cmd ''v0.1'') \<and>
   out_text lone_env (rev_parse_cmd ''v0.1'') = hash_r0 \<and>
   listed (out_text lone_env (names_cmd hash_r0)) = [''README''] \<and>
   main_commits lone_env ''v0.1'' ''v0.1'' console0 =
     (Inl (SystemExit 1),
      \<lparr>out = [],
       err = [''Analyzing commits between v0.1 and v0.1 (inclusive) that modified kernel/bpf/verifier.c'',
              ''Error executing command: git log v0.1^..v0.1 --no-merges --pretty=format:'%H' -- kernel/bpf/verifier.c'',
              ''Error details: fatal: bad revision\<newline>'']\<rparr>) \<and>
   exit_status (fst (main_commits lone_env ''v0.1'' ''v0.1'' console0)) = 1"
  by code_simp

text \<open>
  C3, amended. When the repository is present, both references resolve and the range
  query of \<open>commits.py\<close> succeeds but lists nothing, the tool returns normally (exit
  status 0) and prints one complete report whose \<open>commit_count\<close> is 0 and whose \<open>commits\<close>
  is the empty array.
\<close>

theorem empty_range_report:
  assumes "dotgit_exists e"
    and "succeeds e (rev_parse_cmd start_ref)"
    and "succeeds e (rev_parse_cmd end_ref)"
    and "succeeds e (range_cmd start_ref end_ref)"
    and "out_text e (range_cmd start_ref end_ref) = []"
  shows "exit_status (fst (main_commits e start_ref end_ref console0)) = 0 \<and>
         out (snd (main_commits e start_ref end_ref console0)) =
           [JDict [(''metadata'',
                      JDict [(''target_file'', JStr ''kernel/bpf/verifier.c''),
                             (''start_ref'', JStr start_ref),
                             (''end_ref'', JStr end_ref),
                             (''commit_count'', JInt 0)]),
                   (''commits'', JList [])]]"
proof -
  have "\<forall>h\<in>set (listed (out_text e (range_cmd start_ref end_ref))). details_ok e h"
    using assms(5) by (simp add: listed_def)
  from main_commits_ok[OF assms(1-4) this, of console0] assms(5)
  show ?thesis by (simp add: listed_def commits_report_def console0_def)
qed

theorem empty_range_report_witness:
  "dotgit_exists toy_env \<and>
   succeeds toy_env (rev_parse_cmd ''v1.1'') \<and>
   succeeds toy_env (rev_parse_cmd ''v1.0'') \<and>
   succeeds toy_env (range_cmd ''v1.1'' ''v1.0'') \<and>
   out_text toy_env (range_cmd ''v1.1'' ''v1.0'') = [] \<and>
   exit_status (fst (main_commits toy_env ''v1.1'' ''v1.0'' console0)) = 0 \<and>
   out (snd (main_commits toy_env ''v1.1'' ''v1.0'' console0)) =
     [JDict [(''metadata'',
                JDict [(''target_file'', JStr ''kernel/bpf/verifier.c''),
                       (''start_ref'', JStr ''v1.1''),
                       (''end_ref'', JStr ''v1.0''),
                       (''commit_count'', JInt 0)]),
             (''commits'', JList [])]]"
proof -
  have h1: "dotgit_exists toy_env" by code_simp
  have h2: "succeeds toy_env (rev_parse_cmd ''v1.1'')" by code_simp
  have h3: "succeeds toy_env (rev_parse_cmd ''v1.0'')" by code_simp
  have h4: "succeeds toy_env (range_cmd ''v1.1'' ''v1.0'')" by code_simp
  have h5: "out_text toy_env (range_cmd ''v1.1'' ''v1.0'') = []" by code_simp
  from empty_range_report[OF h1 h2 h3 h4 h5] h1 h2 h3 h4 h5 show ?thesis by simp
qed


text \<open>
  A second way the same claim fails: \<open>v0.9\<close> names the root commit \<open>c0\<close>, which modifies
  the file; \<open>v0.9^\<close> does not exist, the range query fails and the run ends with status 1
  and no report.
\<close>

lemma root_start_ref_aborts:
  "''kernel/bpf/verifier.c'' \<in> set (listed (out_text toy_env (names_cmd hash_c0))) \<and>
   out_text toy_env (rev_parse_cmd ''v0.9'') = hash_c0 \<and>
   \<not> succeeds toy_env (range_cmd ''v0.9'' ''v2.0'') \<and>
   exit_status (fst (main_commits toy_env ''v0.9'' ''v2.0'' console0)) = 1 \<and>
   out (snd (main_commits toy_env ''v0.9'' ''v2.0'' console0)) = []"
  by code_simp



section \<open>Claims about \<open>patchsets.py\<close>\<close>

text \<open>
  C4. A merge whose \<open>parent1..parent2\<close> range contains a merge commit (the query
  \<open>git log --merges --oneline parent1..parent2\<close> succeeds and prints something) is the
  \<open>merge_hash\<close> of no patchset in the output of \<open>patchsets.py\<close>, whatever its subject and
  whatever its range touches.
\<close>

theorem nested_merge_never_reported:
  assumes "succeeds e (nested_cmd (parent1_of e m) (parent2_of e m))"
    and "out_text e (nested_cmd (parent1_of e m) (parent2_of e m)) \<noteq> []"
  shows "Some (JStr m) \<notin> set (map (json_field ''merge_hash'')
           (reported_patchsets (snd (main_patchsets e start_ref end_ref console0))))"
proof
  assume "Some (JStr m) \<in> set (map (json_field ''merge_hash'')
           (reported_patchsets (snd (main_patchsets e start_ref end_ref console0))))"
  then obtain p where "p \<in> set (reported_patchsets (snd (main_patchsets e start_ref end_ref console0)))"
    "json_field ''merge_hash'' p = Some (JStr m)" by auto
  then have "accepted e m" by (simp add: reported_patchset_accepted)
  with assms(2) show False by (simp add: accepted_def contains_merges_def)
qed

theorem nested_merge_never_reported_witness:
  "hash_m4 \<in> set (listed (out_text toy_env (merges_cmd ''v1.0'' ''v2.0''))) \<and>
   parent2_of toy_env hash_m4 = hash_mc \<and>
   succeeds toy_env (nested_cmd (parent1_of toy_env hash_m4) (parent2_of toy_env hash_m4)) \<and>
   out_text toy_env (nested_cmd (parent1_of toy_env hash_m4) (parent2_of toy_env hash_m4)) \<noteq> [] \<and>
   affects_verifier toy_env hash_m4 \<and>
   Some (JStr hash_m4) \<notin> set (map (json_field ''merge_hash'')
      (reported_patchsets (snd (main_patchsets toy_env ''v1.0'' ''v2.0'' console0)))) \<and>
   map (json_field ''merge_hash'')
      (reported_patchsets (snd (main_patchsets toy_env ''v1.0'' ''v2.0'' console0)))
     = [Some (JStr hash_mc), Some (JStr hash_m1)]"
proof -
  have h0: "hash_m4 \<in> set (listed (out_text toy_env (merges_cmd ''v1.0'' ''v2.0'')))"
    by (simp add: toy_merges_listed)
  have hp: "parent2_of toy_env hash_m4 = hash_mc" by code_simp
  have h1: "succeeds toy_env (nested_cmd (parent1_of toy_env hash_m4) (parent2_of toy_env hash_m4))"
    by code_simp
  have h2: "out_text toy_env (nested_cmd (parent1_of toy_env hash_m4) (parent2_of toy_env hash_m4)) \<noteq> []"
    by code_simp
  have h3: "affects_verifier toy_env hash_m4" by code_simp
  from nested_merge_never_reported[OF h1 h2, of "''v1.0''" "''v2.0''"] h0 hp h1 h2 h3
    toy_patchsets_hashes
  show ?thesis by simp
qed

text \<open>
  C5. A merge whose subject line (the text \<open>git show -s --format='%s'\<close> prints, as
  \<open>get_merge_details\<close> stores it) contains \<open>Merge tag\<close> anywhere is the \<open>merge_hash\<close> of
  no patchset in the output of \<open>patchsets.py\<close>, whether or not its range touches the
  target file.
\<close>

theorem tag_merge_never_reported:
  assumes "succeeds e (subject_cmd m)"
    and "out_text e (subject_cmd m) = before @ ''Merge tag'' @ after"
  shows "Some (JStr m) \<notin> set (map (json_field ''merge_hash'')
           (reported_patchsets (snd (main_patchsets e start_ref end_ref console0))))"
proof
  assume "Some (JStr m) \<in> set (map (json_field ''merge_hash'')
           (reported_patchsets (snd (main_patchsets e start_ref end_ref console0))))"
  then obtain p where "p \<in> set (reported_patchsets (snd (main_patchsets e start_ref end_ref console0)))"
    "json_field ''merge_hash'' p = Some (JStr m)" by auto
  then have "accepted e m" by (simp add: reported_patchset_accepted)
  moreover have "tag_merge e m"
    unfolding tag_merge_def str_contains_iff using assms(2) by blast
  ultimately show False by (simp add: accepted_def)
qed

theorem tag_merge_never_reported_witness:
  "hash_m3 \<in> set (listed (out_text toy_env (merges_cmd ''v1.0'' ''v2.0''))) \<and>
   succeeds toy_env (subject_cmd hash_m3) \<and>
   out_text toy_env (subject_cmd hash_m3)
     = [] @ ''Merge tag'' @ '' '' @ [CHR 0x27] @ ''bpf-next-6.1'' @ [CHR 0x27]
          @ '' of git://example.org/bpf-next'' \<and>
   \<not> contains_merges toy_env hash_m3 \<and>
   affects_verifier toy_env hash_m3 \<and>
   Some (JStr hash_m3) \<notin> set (map (json_field ''merge_hash'')
      (reported_patchsets (snd (main_patchsets toy_env ''v1.0'' ''v2.0'' console0)))) \<and>
   map (json_field ''merge_hash'')
      (reported_patchsets (snd (main_patchsets toy_env ''v1.0'' ''v2.0'' console0)))
     = [Some (JStr hash_mc), Some (JStr hash_m1)]"
proof -
  have h0: "hash_m3 \<in> set (listed (out_text toy_env (merges_cmd ''v1.0'' ''v2.0'')))"
    by (simp add: toy_merges_listed)
  have h1: "succeeds toy_env (subject_cmd hash_m3)" by code_simp
  have h2: "out_text toy_env (subject_cmd hash_m3)
     = [] @ ''Merge tag'' @ ('' '' @ [CHR 0x27] @ ''bpf-next-6.1'' @ [CHR 0x27]
          @ '' of git://example.org/bpf-next'')" by code_simp
  have h3: "\<not> contains_merges toy_env hash_m3" by code_simp
  have h4: "affects_verifier toy_env hash_m3" by code_simp
  from tag_merge_never_reported[OF h1 h2, of "''v1.0''" "''v2.0''"] h0 h1 h2 h3 h4
    toy_patchsets_hashes
  show ?thesis by simp
qed

text \<open>
  C6. A merge whose \<open>parent1..parent2\<close> range has no commit touching
  \<open>kernel/bpf/verifier.c\<close> (the query \<open>git log --oneline parent1..parent2 -- kernel/bpf/verifier.c\<close>
  succeeds and prints nothing) is the \<open>merge_hash\<close> of no patchset in the output of
  \<open>patchsets.py\<close>; in particular when it passes the nested-merge and tag-merge tests.
\<close>

theorem irrelevant_merge_never_reported:
  assumes "succeeds e (affects_cmd (parent1_of e m) (parent2_of e m))"
    and "out_text e (affects_cmd (parent1_of e m) (parent2_of e m)) = []"
  shows "Some (JStr m) \<notin> set (map (json_field ''merge_hash'')
           (reported_patchsets (snd (main_patchsets e start_ref end_ref console0))))"
proof
  assume "Some (JStr m) \<in> set (map (json_field ''merge_hash'')
           (reported_patchsets (snd (main_patchsets e start_ref end_ref console0))))"
  then obtain p where "p \<in> set (reported_patchsets (snd (main_patchsets e start_ref end_ref console0)))"
    "json_field ''merge_hash'' p = Some (JStr m)" by auto
  then have "accepted e m" by (simp add: reported_patchset_accepted)
  with assms(2) show False by (simp add: accepted_def affects_verifier_def)
qed

theorem irrelevant_merge_never_reported_witness:
  "hash_m2 \<in> set (listed (out_text toy_env (merges_cmd ''v1.0'' ''v2.0''))) \<and>
   \<not> contains_merges toy_env hash_m2 \<and>
   \<not> tag_merge toy_env hash_m2 \<and>
   succeeds toy_env (affects_cmd (parent1_of toy_env hash_m2) (parent2_of toy_env hash_m2)) \<and>
   out_text toy_env (affects_cmd (parent1_of toy_env hash_m2) (parent2_of toy_env hash_m2)) = [] \<and>
   Some (JStr hash_m2) \<notin> set (map (json_field ''merge_hash'')
      (reported_patchsets (snd (main_patchsets toy_env ''v1.0'' ''v2.0'' console0)))) \<and>
   map (json_field ''merge_hash'')
      (reported_patchsets (snd (main_patchsets toy_env ''v1.0'' ''v2.0'' console0)))
     = [Some (JStr hash_mc), Some (JStr hash_m1)]"
proof -
  have h0: "hash_m2 \<in> set (listed (out_text toy_env (merges_cmd ''v1.0'' ''v2.0'')))"
    by (simp add: toy_merges_listed)
  have h1: "succeeds toy_env (affects_cmd (parent1_of toy_env hash_m2) (parent2_of toy_env hash_m2))"
    by code_simp
  have h2: "out_text toy_env (affects_cmd (parent1_of toy_env hash_m2) (parent2_of toy_env hash_m2)) = []"
    by code_simp
  have h3: "\<not> contains_merges toy_env hash_m2" by code_simp
  have h4: "\<not> tag_merge toy_env hash_m2" by code_simp
  from irrelevant_merge_never_reported[OF h1 h2, of "''v1.0''" "''v2.0''"] h0 h1 h2 h3 h4
    toy_patchsets_hashes
  show ?thesis by simp
qed



section \<open>Claims about both tools\<close>

text \<open>
  C2. In every document either tool prints, the count in \<open>metadata\<close> is the length of
  the collection beside it: \<open>commit_count\<close> is the number of elements of \<open>commits\<close>
  (\<open>commits.py\<close>) and \<open>patchset_count\<close> the number of elements of \<open>patchsets\<close>
  (\<open>patchsets.py\<close>).
\<close>

theorem count_is_length:
  "(doc \<in> set (out (snd (main_commits e start_ref end_ref console0))) \<longrightarrow>
      (\<exists>records. json_field ''commits'' doc = Some (JList records) \<and>
         metadata_field ''commit_count'' doc = Some (JInt (int (length records))))) \<and>
   (doc' \<in> set (out (snd (main_patchsets e start_ref end_ref console0))) \<longrightarrow>
      (\<exists>records. json_field ''patchsets'' doc' = Some (JList records) \<and>
         metadata_field ''patchset_count'' doc' = Some (JInt (int (length records)))))"
proof (intro conjI impI)
  assume "doc \<in> set (out (snd (main_commits e start_ref end_ref console0)))"
  with main_commits_outcome[of e start_ref end_ref]
  obtain records where "doc = commits_report start_ref end_ref records" by auto
  then show "\<exists>records. json_field ''commits'' doc = Some (JList records) \<and>
         metadata_field ''commit_count'' doc = Some (JInt (int (length records)))"
    by (simp add: commits_report_def metadata_field_def)
next
  assume "doc' \<in> set (out (snd (main_patchsets e start_ref end_ref console0)))"
  with main_patchsets_outcome[of e start_ref end_ref]
  obtain records where "doc' = patchsets_report start_ref end_ref records" by auto
  then show "\<exists>records. json_field ''patchsets'' doc' = Some (JList records) \<and>
         metadata_field ''patchset_count'' doc' = Some (JInt (int (length records)))"
    by (simp add: patchsets_report_def metadata_field_def)
qed

theorem count_is_length_witness:
  "commits_report ''v1.0'' ''v2.0''
       (map (commit_record toy_env) [hash_d1, hash_x1, hash_t1, hash_a1, hash_c2, hash_c1])
     \<in> set (out (snd (main_commits toy_env ''v1.0'' ''v2.0'' console0))) \<and>
   (\<exists>records. json_field ''commits'' (commits_report ''v1.0'' ''v2.0''
       (map (commit_record toy_env) [hash_d1, hash_x1, hash_t1, hash_a1, hash_c2, hash_c1]))
         = Some (JList records) \<and>
      metadata_field ''commit_count'' (commits_report ''v1.0'' ''v2.0''
       (map (commit_record toy_env) [hash_d1, hash_x1, hash_t1, hash_a1, hash_c2, hash_c1]))
         = Some (JInt (int (length records)))) \<and>
   metadata_field ''commit_count'' (commits_report ''v1.0'' ''v2.0''
       (map (commit_record toy_env) [hash_d1, hash_x1, hash_t1, hash_a1, hash_c2, hash_c1]))
     = Some (JInt 6) \<and>
   patchsets_report ''v1.0'' ''v2.0'' (map (patchset_record toy_env) [hash_mc, hash_m1])
     \<in> set (out (snd (main_patchsets toy_env ''v1.0'' ''v2.0'' console0))) \<and>
   (\<exists>records. json_field ''patchsets''
        (patchsets_report ''v1.0'' ''v2.0'' (map (patchset_record toy_env) [hash_mc, hash_m1]))
         = Some (JList records) \<and>
      metadata_field ''patchset_count''
        (patchsets_report ''v1.0'' ''v2.0'' (map (patchset_record toy_env) [hash_mc, hash_m1]))
         = Some (JInt (int (length records)))) \<and>
   metadata_field ''patchset_count''
        (patchsets_report ''v1.0'' ''v2.0'' (map (patchset_record toy_env) [hash_mc, hash_m1]))
     = Some (JInt 2)"
proof -
  let ?doc = "commits_report ''v1.0'' ''v2.0''
       (map (commit_record toy_env) [hash_d1, hash_x1, hash_t1, hash_a1, hash_c2, hash_c1])"
  let ?doc' = "patchsets_report ''v1.0'' ''v2.0'' (map (patchset_record toy_env) [hash_mc, hash_m1])"
  have h1: "?doc \<in> set (out (snd (main_commits toy_env ''v1.0'' ''v2.0'' console0)))"
    by (simp add: toy_commits_doc)
  have h2: "?doc' \<in> set (out (snd (main_patchsets toy_env ''v1.0'' ''v2.0'' console0)))"
    by (simp add: toy_patchsets_doc)
  have n1: "metadata_field ''commit_count'' ?doc = Some (JInt 6)"
    by (simp add: commits_report_def metadata_field_def)
  have n2: "metadata_field ''patchset_count'' ?doc' = Some (JInt 2)"
    by (simp add: patchsets_report_def metadata_field_def)
  from count_is_length[of ?doc toy_env "''v1.0''" "''v2.0''" ?doc'] h1 h2 n1 n2
  show ?thesis by blast
qed



text \<open>
  C9. \<open>run_command\<close> never raises \<open>CalledProcessError\<close> to its caller, so the \<open>try\<close> body
  that checks the two references never does either and the handler's line
  \<open>Error: One or both git references do not exist\<close> is printed by neither tool. A
  reference that does not resolve ends the run inside \<open>run_command\<close>: \<open>sys.exit(1)\<close> after
  the two lines of the generic command-failure message, and nothing else on either stream.
\<close>

theorem reference_handler_unreachable:
  "fst (run_command e cmd c) \<noteq> Inl (CalledProcessError x) \<and>
   fst (verify_refs e start_ref end_ref c) \<noteq> Inl (CalledProcessError x) \<and>
   handler_line \<notin> set (err (snd (main_commits e start_ref end_ref console0))) \<and>
   handler_line \<notin> set (err (snd (main_patchsets e start_ref end_ref console0))) \<and>
   (dotgit_exists e \<and> \<not> succeeds e (rev_parse_cmd start_ref) \<longrightarrow>
      main_commits e start_ref end_ref console0 =
        (Inl (SystemExit 1),
         \<lparr>out = [],
          err = [''Error executing command: git rev-parse '' @ start_ref,
                 ''Error details: '' @ stderr_text (shell e (rev_parse_cmd start_ref))]\<rparr>) \<and>
      main_patchsets e start_ref end_ref console0 =
        (Inl (SystemExit 1),
         \<lparr>out = [],
          err = [''Error executing command: git rev-parse '' @ start_ref,
                 ''Error details: '' @ stderr_text (shell e (rev_parse_cmd start_ref))]\<rparr>)) \<and>
   (dotgit_exists e \<and> succeeds e (rev_parse_cmd start_ref)
      \<and> \<not> succeeds e (rev_parse_cmd end_ref) \<longrightarrow>
      main_commits e start_ref end_ref console0 =
        (Inl (SystemExit 1),
         \<lparr>out = [],
          err = [''Error executing command: git rev-parse '' @ end_ref,
                 ''Error details: '' @ stderr_text (shell e (rev_parse_cmd end_ref))]\<rparr>) \<and>
      main_patchsets e start_ref end_ref console0 =
        (Inl (SystemExit 1),
         \<lparr>out = [],
          err = [''Error executing command: git rev-parse '' @ end_ref,
                 ''Error details: '' @ stderr_text (shell e (rev_parse_cmd end_ref))]\<rparr>))"
proof (intro conjI impI)
  show "fst (run_command e cmd c) \<noteq> Inl (CalledProcessError x)"
    by (rule run_command_never_CalledProcessError)
  show "fst (verify_refs e start_ref end_ref c) \<noteq> Inl (CalledProcessError x)"
    by (rule verify_refs_never_CalledProcessError)
  show "handler_line \<notin> set (err (snd (main_commits e start_ref end_ref console0)))"
    by (rule main_commits_no_handler_line)
  show "handler_line \<notin> set (err (snd (main_patchsets e start_ref end_ref console0)))"
    by (rule main_patchsets_no_handler_line)
next
  assume "dotgit_exists e \<and> \<not> succeeds e (rev_parse_cmd start_ref)"
  then show "main_commits e start_ref end_ref console0 =
        (Inl (SystemExit 1),
         \<lparr>out = [],
          err = [''Error executing command: git rev-parse '' @ start_ref,
                 ''Error details: '' @ stderr_text (shell e (rev_parse_cmd start_ref))]\<rparr>)"
    by (simp add: main_commits_unfold failure_lines_def console0_def rev_parse_cmd_def)
next
  assume "dotgit_exists e \<and> \<not> succeeds e (rev_parse_cmd start_ref)"
  then show "main_patchsets e start_ref end_ref console0 =
        (Inl (SystemExit 1),
         \<lparr>out = [],
          err = [''Error executing command: git rev-parse '' @ start_ref,
                 ''Error details: '' @ stderr_text (shell e (rev_parse_cmd start_ref))]\<rparr>)"
    by (simp add: main_patchsets_unfold bind_def verify_refs_eq failure_lines_def console0_def
        rev_parse_cmd_def)
next
  assume "dotgit_exists e \<and> succeeds e (rev_parse_cmd start_ref)
      \<and> \<not> succeeds e (rev_parse_cmd end_ref)"
  then show "main_commits e start_ref end_ref console0 =
        (Inl (SystemExit 1),
         \<lparr>out = [],
          err = [''Error executing command: git rev-parse '' @ end_ref,
                 ''Error details: '' @ stderr_text (shell e (rev_parse_cmd end_ref))]\<rparr>)"
    by (simp add: main_commits_unfold failure_lines_def console0_def rev_parse_cmd_def)
next
  assume "dotgit_exists e \<and> succeeds e (rev_parse_cmd start_ref)
      \<and> \<not> succeeds e (rev_parse_cmd end_ref)"
  then show "main_patchsets e start_ref end_ref console0 =
        (Inl (SystemExit 1),
         \<lparr>out = [],
          err = [''Error executing command: git rev-parse '' @ end_ref,
                 ''Error details: '' @ stderr_text (shell e (rev_parse_cmd end_ref))]\<rparr>)"
    by (simp add: main_patchsets_unfold bind_def verify_refs_eq failure_lines_def console0_def
        rev_parse_cmd_def)
qed

theorem reference_handler_unreachable_witness:
  "dotgit_exists toy_env \<and>
   \<not> succeeds toy_env (rev_parse_cmd ''not-a-real-ref'') \<and>
   succeeds toy_env (rev_parse_cmd ''v1.0'') \<and>
   main_commits toy_env ''not-a-real-ref'' ''v2.0'' console0 =
     (Inl (SystemExit 1),
      \<lparr>out = [],
       err = [''Error executing command: git rev-parse not-a-real-ref'',
              ''Error details: fatal: bad revision\<newline>'']\<rparr>) \<and>
   main_patchsets toy_env ''v1.0'' ''not-a-real-ref'' console0 =
     (Inl (SystemExit 1),
      \<lparr>out = [],
       err = [''Error executing command: git rev-parse not-a-real-ref'',
              ''Error details: fatal: bad revision\<newline>'']\<rparr>) \<and>
   handler_line \<notin> set (err (snd (main_commits toy_env ''not-a-real-ref'' ''v2.0'' console0)))"
proof -
  have h1: "dotgit_exists toy_env" by code_simp
  have h2: "\<not> succeeds toy_env (rev_parse_cmd ''not-a-real-ref'')" by code_simp
  have h3: "succeeds toy_env (rev_parse_cmd ''v1.0'')" by code_simp
  have h4: "stderr_text (shell toy_env (rev_parse_cmd ''not-a-real-ref''))
              = ''fatal: bad revision\<newline>''" by code_simp
  from reference_handler_unreachable[where e = toy_env and cmd = "[]" and c = console0
      and x = "[]" and start_ref = "''not-a-real-ref''" and end_ref = "''v2.0''"] h1 h2 h4
  have a: "main_commits toy_env ''not-a-real-ref'' ''v2.0'' console0 =
     (Inl (SystemExit 1),
      \<lparr>out = [],
       err = [''Error executing command: git rev-parse not-a-real-ref'',
              ''Error details: fatal: bad revision\<newline>'']\<rparr>)"
    and b: "handler_line \<notin> set (err (snd (main_commits toy_env ''not-a-real-ref'' ''v2.0'' console0)))"
    by (simp_all add: handler_line_def)
  from reference_handler_unreachable[where e = toy_env and cmd = "[]" and c = console0
      and x = "[]" and start_ref = "''v1.0''" and end_ref = "''not-a-real-ref''"] h1 h2 h3 h4
  have c: "main_patchsets toy_env ''v1.0'' ''not-a-real-ref'' console0 =
     (Inl (SystemExit 1),
      \<lparr>out = [],
       err = [''Error executing command: git rev-parse not-a-real-ref'',
              ''Error details: fatal: bad revision\<newline>'']\<rparr>)"
    by simp
  from h1 h2 h3 a b c show ?thesis by simp
qed


section \<open>Claims about the string fields\<close>




end
